theory Spec2Isabelle
  imports Complex_Main "HOL-Library.Char_ord" "HOL-Library.List_Lexorder"
    "HOL-Library.Option_ord" "HOL-Library.Product_Lexorder" "HOL-Library.Multiset"
begin

section \<open>LittleLemon: the function-based views and their serializers\<close>

text \<open>
  The development embeds \<^verbatim>\<open>LittleLemonDRF/views-function.py\<close> and
  \<^verbatim>\<open>LittleLemonDRF/serializers.py\<close>. A view is a function from a request and the
  database to a response and the database after the request. What the views delegate
  to Django and to the REST framework (the object manager, the \<^verbatim>\<open>Response\<close>
  constructor, serializer validation, the paginator) is written out as HOL functions
  that follow the documented behaviour of those libraries.

  Boundaries of the model:
  \<^item> request throttling is time-based and is left out: a view is the handling of a
    request that the throttle has admitted;
  \<^item> payload values are JSON \<^verbatim>\<open>null\<close>, booleans, integers and strings, and Python
    \<^verbatim>\<open>Decimal\<close>s where a view builds a dictionary itself; a \<^verbatim>\<open>Decimal\<close> is an exact
    rational, a JSON number with a fraction is not part of the payload type;
  \<^item> strings are byte strings, numbers are read in their plain ASCII spelling
    (sign, digits, one decimal point); Python also reads digit-group underscores,
    exponents and non-ASCII digits;
  \<^item> \<^verbatim>\<open>views-function.py\<close> imports the name \<^verbatim>\<open>UserSerializer\<close>, which
    \<^verbatim>\<open>serializers.py\<close> declares as \<^verbatim>\<open>UserSerilializer\<close>; the model reads both as the
    one serializer of users.
\<close>

subsection \<open>Python values\<close>

datatype pyval = VNone | VBool bool | VInt int | VStr string | VDec rat

type_synonym pydict = "string \<rightharpoonup> pyval"

datatype exn =
    KeyError string
  | DoesNotExist
  | MultipleObjectsReturned
  | FieldError
  | AttributeError
  | TypeError
  | ValueError
  | InvalidOperation
  | ValidationError
  | IntegrityError
  | ZeroDivisionError
  | PageNotAnInteger
  | AssertionError

definition is_space :: "char \<Rightarrow> bool" where
  "is_space c = (c \<in> set [CHR '' '', CHR 0x09, CHR 0x0A, CHR 0x0B, CHR 0x0C, CHR 0x0D])"

definition strip :: "string \<Rightarrow> string" where
  "strip s = rev (dropWhile is_space (rev (dropWhile is_space s)))"

definition is_digit :: "char \<Rightarrow> bool" where
  "is_digit c = (CHR ''0'' \<le> c \<and> c \<le> CHR ''9'')"

definition digit_val :: "char \<Rightarrow> nat" where
  "digit_val c = of_char c - 48"

definition digits_val :: "string \<Rightarrow> nat" where
  "digits_val s = foldl (\<lambda>n c. 10 * n + digit_val c) 0 s"

text \<open>The sign of a numeral and the rest of it.\<close>

definition split_sign :: "string \<Rightarrow> bool \<times> string" where
  "split_sign t =
     (case t of
        [] \<Rightarrow> (False, [])
      | c # r \<Rightarrow> if c = CHR ''-'' then (True, r) else if c = CHR ''+'' then (False, r) else (False, t))"

text \<open>Python's \<^verbatim>\<open>int(s)\<close> on a string; \<open>None\<close> is \<^verbatim>\<open>ValueError\<close>.\<close>

definition py_int :: "string \<Rightarrow> int option" where
  "py_int s =
     (let (neg, ds) = split_sign (strip s)
      in if ds \<noteq> [] \<and> list_all is_digit ds
         then Some (if neg then - int (digits_val ds) else int (digits_val ds))
         else None)"

text \<open>Python's \<^verbatim>\<open>Decimal(s)\<close> on a string; \<open>None\<close> is \<^verbatim>\<open>InvalidOperation\<close>.\<close>

definition py_decimal :: "string \<Rightarrow> rat option" where
  "py_decimal s =
     (let (neg, u) = split_sign (strip s);
          ip = takeWhile is_digit u;
          r = dropWhile is_digit u;
          res = (case r of
                   [] \<Rightarrow> if ip \<noteq> [] then Some (of_nat (digits_val ip)) else None
                 | c # fp \<Rightarrow>
                     if c = CHR ''.'' \<and> list_all is_digit fp \<and> (ip \<noteq> [] \<or> fp \<noteq> [])
                     then Some (of_nat (digits_val ip) + of_nat (digits_val fp) / 10 ^ length fp)
                     else None)
      in map_option (\<lambda>q. if neg then - q else q) res)"

text \<open>
  \<^verbatim>\<open>str.split(",")\<close>, \<^verbatim>\<open>str.lower()\<close> on ASCII letters and the substring test of
  the \<^verbatim>\<open>icontains\<close> lookup.
\<close>

fun split_on :: "char \<Rightarrow> string \<Rightarrow> string list" where
  "split_on c [] = [[]]"
| "split_on c (x # xs) =
     (if x = c then [] # split_on c xs
      else (case split_on c xs of [] \<Rightarrow> [[x]] | y # ys \<Rightarrow> (x # y) # ys))"

definition lower_char :: "char \<Rightarrow> char" where
  "lower_char c = (if CHR ''A'' \<le> c \<and> c \<le> CHR ''Z'' then char_of (of_char c + (32::nat)) else c)"

definition lower :: "string \<Rightarrow> string" where
  "lower s = map lower_char s"

fun starts_with :: "string \<Rightarrow> string \<Rightarrow> bool" where
  "starts_with s [] = True"
| "starts_with [] (p # ps) = False"
| "starts_with (x # xs) (p # ps) = (x = p \<and> starts_with xs ps)"

fun contains :: "string \<Rightarrow> string \<Rightarrow> bool" where
  "contains [] p = (p = [])"
| "contains (x # xs) p = (starts_with (x # xs) p \<or> contains xs p)"

definition icontains :: "string \<Rightarrow> string \<Rightarrow> bool" where
  "icontains s p = contains (lower s) (lower p)"

subsection \<open>The database\<close>

text \<open>
  Modelled from the spec: \<^verbatim>\<open>models.py\<close> is not among the sources. The rows carry the
  fields that section 3 of the specification lists and that the serializers name.
  References are primary keys; \<open>delivery_crew\<close> is the one nullable reference; the
  status of an order is 0 or 1, a boolean; a rating stores \<open>menuitem_id\<close> as a number,
  the field the rating serializer writes. Categories, menu items, orders and users
  carry their primary key, the other tables are never read by key.
\<close>

type_synonym date = "nat \<times> nat \<times> nat"

record user_row =
  usr_id :: nat
  usr_username :: string
  usr_email :: string

record category_row =
  cat_id :: nat
  cat_title :: string
  cat_slug :: string

record menuitem_row =
  mi_id :: nat
  mi_title :: string
  mi_price :: rat
  mi_category :: nat
  mi_featured :: bool

record cart_row =
  cart_user :: nat
  cart_menuitem :: nat
  cart_unit_price :: rat
  cart_quantity :: int
  cart_price :: rat

record order_row =
  ord_id :: nat
  ord_user :: nat
  ord_delivery_crew :: "nat option"
  ord_status :: bool
  ord_date :: date
  ord_total :: rat

record orderitem_row =
  oi_order :: nat
  oi_menuitem :: nat
  oi_quantity :: int
  oi_price :: rat

record rating_row =
  rt_user :: nat
  rt_menuitem_id :: int
  rt_rating :: int

text \<open>
  One list of rows for each model, in the order the database returns them, and the
  members of each group by the group's name. The database also sorts: \<^verbatim>\<open>ORDER BY\<close>
  puts rows in the order of their keys and leaves the order of rows with equal keys
  to the database, so the sorting of the two tables that the views sort is a part
  of the database, a function from the comparison of two rows and the rows to the
  sorted rows.
\<close>

record db =
  User_objects :: "user_row list"
  Group_objects :: "string \<rightharpoonup> nat set"
  Category_objects :: "category_row list"
  MenuItem_objects :: "menuitem_row list"
  Cart_objects :: "cart_row list"
  Order_objects :: "order_row list"
  OrderItem_objects :: "orderitem_row list"
  Rating_objects :: "rating_row list"
  MenuItem_order_by ::
    "(menuitem_row \<Rightarrow> menuitem_row \<Rightarrow> bool) \<Rightarrow> menuitem_row list \<Rightarrow> menuitem_row list"
  Order_order_by :: "(order_row \<Rightarrow> order_row \<Rightarrow> bool) \<Rightarrow> order_row list \<Rightarrow> order_row list"

text \<open>
  What \<^verbatim>\<open>ORDER BY\<close> promises: for a comparison that is total and transitive, the
  result has the rows it was given, each as often, in an order in which no row
  comes before a row that the comparison puts first.
\<close>

definition total_preorder :: "('a \<Rightarrow> 'a \<Rightarrow> bool) \<Rightarrow> bool" where
  "total_preorder le \<longleftrightarrow> (\<forall>a b. le a b \<or> le b a) \<and> (\<forall>a b c. le a b \<and> le b c \<longrightarrow> le a c)"


text \<open>\<^verbatim>\<open>user.groups.filter(name=g).exists()\<close>; the anonymous user is in no group.\<close>

definition in_group :: "db \<Rightarrow> nat option \<Rightarrow> string \<Rightarrow> bool" where
  "in_group d u g =
     (case u of
        None \<Rightarrow> False
      | Some i \<Rightarrow> (case Group_objects d g of None \<Rightarrow> False | Some members \<Rightarrow> i \<in> members))"

text \<open>\<^verbatim>\<open>QuerySet.get\<close> on the rows that match.\<close>

fun get_row :: "'a list \<Rightarrow> exn + 'a" where
  "get_row [] = Inl DoesNotExist"
| "get_row [x] = Inr x"
| "get_row (x # y # zs) = Inl MultipleObjectsReturned"

text \<open>
  A primary key given as a Python value: Django converts it with \<^verbatim>\<open>int()\<close>, which
  cuts a \<^verbatim>\<open>Decimal\<close> towards zero; \<^verbatim>\<open>None\<close> compares with no key.
\<close>

definition pk_value :: "pyval \<Rightarrow> exn + int option" where
  "pk_value v =
     (case v of
        VNone \<Rightarrow> Inr None
      | VBool b \<Rightarrow> Inr (Some (if b then 1 else 0))
      | VInt n \<Rightarrow> Inr (Some n)
      | VStr s \<Rightarrow> (case py_int s of None \<Rightarrow> Inl ValueError | Some n \<Rightarrow> Inr (Some n))
      | VDec r \<Rightarrow> Inr (Some (if r < 0 then - \<lfloor>- r\<rfloor> else \<lfloor>r\<rfloor>)))"

definition get_by_pk :: "('a \<Rightarrow> nat) \<Rightarrow> 'a list \<Rightarrow> pyval \<Rightarrow> exn + 'a" where
  "get_by_pk key rows v =
     (case pk_value v of
        Inl e \<Rightarrow> Inl e
      | Inr None \<Rightarrow> Inl DoesNotExist
      | Inr (Some n) \<Rightarrow> get_row (filter (\<lambda>r. int (key r) = n) rows))"

text \<open>The key of a new row: the database hands out one that no row of the table has.\<close>

definition next_id :: "nat list \<Rightarrow> nat" where
  "next_id ids = Suc (fold max ids 0)"

subsection \<open>Requests and responses\<close>

datatype http_method = GET | POST | PUT | PATCH | DELETE

text \<open>\<open>req_user\<close> is the key of the authenticated user, \<open>None\<close> the anonymous user.\<close>

record request =
  req_method :: http_method
  req_user :: "nat option"
  req_data :: pydict
  req_query :: "string \<rightharpoonup> string"

type_synonym order_repr = "order_row \<times> orderitem_row list"

datatype payload =
    PNone
  | PInt nat
  | PMessage string
  | PDetail string
  | PErrors "string list"
  | PException exn
  | PCategory category_row
  | PCategories "category_row list"
  | PMenuItem menuitem_row
  | PMenuItems "menuitem_row list"
  | PCart cart_row
  | POrder order_repr
  | POrders "order_repr list"
  | PUsers "user_row list"
  | PRating rating_row
  | PRatings "rating_row list"

record response =
  resp_data :: payload
  resp_status :: nat

abbreviation HTTP_200_OK :: nat where "HTTP_200_OK \<equiv> 200"
abbreviation HTTP_201_CREATED :: nat where "HTTP_201_CREATED \<equiv> 201"
abbreviation HTTP_204_NO_CONTENT :: nat where "HTTP_204_NO_CONTENT \<equiv> 204"
abbreviation HTTP_205_RESET_CONTENT :: nat where "HTTP_205_RESET_CONTENT \<equiv> 205"
abbreviation HTTP_400_BAD_REQUEST :: nat where "HTTP_400_BAD_REQUEST \<equiv> 400"
abbreviation HTTP_401_UNAUTHORIZED :: nat where "HTTP_401_UNAUTHORIZED \<equiv> 401"
abbreviation HTTP_403_FORBIDDEN :: nat where "HTTP_403_FORBIDDEN \<equiv> 403"
abbreviation HTTP_404_NOT_FOUND :: nat where "HTTP_404_NOT_FOUND \<equiv> 404"
abbreviation HTTP_405_METHOD_NOT_ALLOWED :: nat where "HTTP_405_METHOD_NOT_ALLOWED \<equiv> 405"
abbreviation HTTP_500_INTERNAL_SERVER_ERROR :: nat where "HTTP_500_INTERNAL_SERVER_ERROR \<equiv> 500"

text \<open>
  The constructor of the framework's response is
  \<^verbatim>\<open>Response(data=None, status=None, ...)\<close>: the first positional argument is the
  payload, the second the status, and a response built without a status is sent
  with status 200.
\<close>

definition Response :: "payload \<Rightarrow> nat option \<Rightarrow> response" where
  "Response d s = \<lparr>resp_data = d, resp_status = (case s of None \<Rightarrow> HTTP_200_OK | Some c \<Rightarrow> c)\<rparr>"

text \<open>
  What the framework answers by itself: a \<^verbatim>\<open>ValidationError\<close> of a serializer is
  400 with the fields in error, \<^verbatim>\<open>Http404\<close> is 404, any other exception that leaves
  a view is 500.
\<close>

definition validation_error :: "string list \<Rightarrow> response" where
  "validation_error errs = Response (PErrors errs) (Some HTTP_400_BAD_REQUEST)"

definition not_found :: response where
  "not_found = Response (PDetail ''Not found.'') (Some HTTP_404_NOT_FOUND)"

definition server_error :: "exn \<Rightarrow> response" where
  "server_error e = Response (PException e) (Some HTTP_500_INTERNAL_SERVER_ERROR)"

definition not_authorized :: response where
  "not_authorized = Response (PMessage ''You are not authorized.'') (Some HTTP_403_FORBIDDEN)"

text \<open>\<^verbatim>\<open>get_object_or_404\<close>: a missing row is 404, several rows are an exception.\<close>

definition get_object_or_404 :: "'a list \<Rightarrow> response + 'a" where
  "get_object_or_404 rows =
     (case get_row rows of
        Inr x \<Rightarrow> Inr x
      | Inl e \<Rightarrow> if e = DoesNotExist then Inl not_found else Inl (server_error e))"

text \<open>
  \<^verbatim>\<open>@api_view(methods)\<close> with \<^verbatim>\<open>@permission_classes([IsAuthenticated])\<close>: the
  framework checks the permission first, then the method. The status of the
  refusal of an anonymous request depends on the authentication scheme that is
  configured (401 or 403); 401 stands for it.
\<close>

definition api_view ::
  "http_method list \<Rightarrow> bool \<Rightarrow> (request \<Rightarrow> db \<Rightarrow> response \<times> db) \<Rightarrow> request \<Rightarrow> db \<Rightarrow> response \<times> db" where
  "api_view methods is_authenticated view req d =
     (if is_authenticated \<and> req_user req = None
      then (Response (PDetail ''Authentication credentials were not provided.'')
              (Some HTTP_401_UNAUTHORIZED), d)
      else if req_method req \<notin> set methods
      then (Response (PDetail ''Method not allowed.'') (Some HTTP_405_METHOD_NOT_ALLOWED), d)
      else view req d)"

subsection \<open>Serializer fields\<close>

text \<open>
  What the fields of the REST framework accept. \<open>None\<close> is the field's
  \<^verbatim>\<open>ValidationError\<close>. Limits that a field takes from the declaration of the model
  (the longest title, the digits of a price) are not known and not checked.
\<close>

fun show_nat :: "nat \<Rightarrow> string" where
  "show_nat n =
     (if n < 10 then [char_of (48 + n)] else show_nat (n div 10) @ [char_of (48 + n mod 10)])"

declare show_nat.simps [simp del]

definition show_int :: "int \<Rightarrow> string" where
  "show_int i = (if i < 0 then CHR ''-'' # show_nat (nat (- i)) else show_nat (nat i))"

text \<open>
  \<^verbatim>\<open>IntegerField\<close> reads \<^verbatim>\<open>int(re.sub(r'\.0*\s*$', '', str(data)))\<close>: a fraction of
  zeros is dropped before the conversion.
\<close>

definition strip_dot_zeros :: "string \<Rightarrow> string" where
  "strip_dot_zeros s =
     (case dropWhile (\<lambda>c. c = CHR ''0'') (dropWhile is_space (rev s)) of
        [] \<Rightarrow> s
      | c # r \<Rightarrow> if c = CHR ''.'' then rev r else s)"

definition IntegerField :: "pyval \<Rightarrow> int option" where
  "IntegerField v =
     (case v of
        VNone \<Rightarrow> None
      | VBool b \<Rightarrow> None
      | VInt n \<Rightarrow> Some n
      | VStr s \<Rightarrow> if 1000 < length s then None else py_int (strip_dot_zeros s)
      | VDec r \<Rightarrow> if of_int \<lfloor>r\<rfloor> = r then Some \<lfloor>r\<rfloor> else None)"

text \<open>
  Modelled from the spec: \<^verbatim>\<open>models.py\<close> is not among the sources, so the type of an
  integer column is not known. The field that a model serializer makes for an
  integer column refuses a number outside the range of the column; the model takes
  the range of Django's \<^verbatim>\<open>SmallIntegerField\<close>, -32768 to 32767. The numbers from 0 to
  32767 are in the range of every integer column of Django.
\<close>

definition column_min :: int where
  "column_min = - 32768"

definition column_max :: int where
  "column_max = 32767"

definition column_IntegerField :: "pyval \<Rightarrow> int option" where
  "column_IntegerField v =
     (case IntegerField v of
        None \<Rightarrow> None
      | Some n \<Rightarrow> if column_min \<le> n \<and> n \<le> column_max then Some n else None)"

definition DecimalField :: "pyval \<Rightarrow> rat option" where
  "DecimalField v =
     (case v of
        VNone \<Rightarrow> None
      | VBool b \<Rightarrow> None
      | VInt n \<Rightarrow> Some (of_int n)
      | VStr s \<Rightarrow> if 1000 < length (strip s) then None else py_decimal s
      | VDec r \<Rightarrow> Some r)"

definition CharField :: "pyval \<Rightarrow> string option" where
  "CharField v =
     (case v of
        VStr s \<Rightarrow> if strip s = [] then None else Some (strip s)
      | VInt n \<Rightarrow> Some (show_int n)
      | _ \<Rightarrow> None)"

definition is_slug_char :: "char \<Rightarrow> bool" where
  "is_slug_char c =
     (is_digit c \<or> (CHR ''a'' \<le> c \<and> c \<le> CHR ''z'') \<or> (CHR ''A'' \<le> c \<and> c \<le> CHR ''Z'')
      \<or> c = CHR ''-'' \<or> c = CHR ''_'')"

definition SlugField :: "pyval \<Rightarrow> string option" where
  "SlugField v =
     (case CharField v of
        None \<Rightarrow> None
      | Some s \<Rightarrow> if list_all is_slug_char s then Some s else None)"

text \<open>
  \<^verbatim>\<open>BooleanField\<close> puts a string in lower case and looks it up among the spellings
  of true and of false.
\<close>

definition BooleanField :: "pyval \<Rightarrow> bool option" where
  "BooleanField v =
     (case v of
        VNone \<Rightarrow> None
      | VBool b \<Rightarrow> Some b
      | VInt n \<Rightarrow> if n = 1 then Some True else if n = 0 then Some False else None
      | VStr s \<Rightarrow>
          if lower s \<in> set [''t'', ''y'', ''yes'', ''true'', ''on'', ''1''] then Some True
          else if lower s \<in> set [''f'', ''n'', ''no'', ''false'', ''off'', ''0''] then Some False
          else None
      | VDec r \<Rightarrow> if r = 1 then Some True else if r = 0 then Some False else None)"

text \<open>\<^verbatim>\<open>DateField\<close> reads an ISO date, year-month-day, and checks it on the calendar.\<close>

definition days_in_month :: "nat \<Rightarrow> nat \<Rightarrow> nat" where
  "days_in_month y m =
     (if m = 2 then (if y mod 4 = 0 \<and> (y mod 400 = 0 \<or> y mod 100 \<noteq> 0) then 29 else 28)
      else if m \<in> set [4, 6, 9, 11] then 30
      else 31)"

definition DateField :: "pyval \<Rightarrow> date option" where
  "DateField v =
     (case v of
        VStr s \<Rightarrow>
          (case split_on CHR ''-'' s of
             [ys, ms, ds] \<Rightarrow>
               if length ys = 4 \<and> list_all is_digit ys
                  \<and> length ms \<in> set [1, 2] \<and> list_all is_digit ms
                  \<and> length ds \<in> set [1, 2] \<and> list_all is_digit ds
                  \<and> 1 \<le> digits_val ys
                  \<and> 1 \<le> digits_val ms \<and> digits_val ms \<le> 12
                  \<and> 1 \<le> digits_val ds \<and> digits_val ds \<le> days_in_month (digits_val ys) (digits_val ms)
               then Some (digits_val ys, digits_val ms, digits_val ds)
               else None
           | _ \<Rightarrow> None)
      | _ \<Rightarrow> None)"

text \<open>
  \<^verbatim>\<open>PrimaryKeyRelatedField(queryset=rows)\<close> refuses a boolean and a key that no row
  has, and yields the row's key. Keys are unique in a database; a key that several
  rows of the list share is refused as well.
\<close>

definition PrimaryKeyRelatedField :: "('a \<Rightarrow> nat) \<Rightarrow> 'a list \<Rightarrow> pyval \<Rightarrow> nat option" where
  "PrimaryKeyRelatedField key rows v =
     (case v of
        VBool b \<Rightarrow> None
      | _ \<Rightarrow> (case get_by_pk key rows v of Inl e \<Rightarrow> None | Inr x \<Rightarrow> Some (key x)))"

text \<open>
  The validation of one field of a serializer. A field that the data lacks is
  skipped in a partial update and is an error when the field is required; a field
  that is not required and has no default is skipped; \<^verbatim>\<open>null\<close> is an error unless
  the field allows it.
\<close>

datatype 'a field_result = Skipped | Invalid | Valid 'a

definition run_field :: "bool \<Rightarrow> (pyval \<Rightarrow> 'a option) \<Rightarrow> pyval option \<Rightarrow> 'a field_result" where
  "run_field partial conv v =
     (case v of
        None \<Rightarrow> if partial then Skipped else Invalid
      | Some VNone \<Rightarrow> Invalid
      | Some x \<Rightarrow> (case conv x of None \<Rightarrow> Invalid | Some y \<Rightarrow> Valid y))"

definition run_nullable_field :: "(pyval \<Rightarrow> 'a option) \<Rightarrow> pyval option \<Rightarrow> 'a option field_result" where
  "run_nullable_field conv v =
     (case v of
        None \<Rightarrow> Skipped
      | Some VNone \<Rightarrow> Valid None
      | Some x \<Rightarrow> (case conv x of None \<Rightarrow> Invalid | Some y \<Rightarrow> Valid (Some y)))"

definition field_error :: "string \<Rightarrow> 'a field_result \<Rightarrow> string list" where
  "field_error name r = (case r of Invalid \<Rightarrow> [name] | _ \<Rightarrow> [])"

definition field_value :: "'a field_result \<Rightarrow> 'a option" where
  "field_value r = (case r of Valid x \<Rightarrow> Some x | _ \<Rightarrow> None)"

text \<open>
  The outcome of \<^verbatim>\<open>is_valid(raise_exception=True)\<close>: an exception other than a
  validation error, the fields in error, or the validated data.
\<close>

datatype 'a validation = Raised exn | Errors "string list" | Validated 'a

subsection \<open>The serializers of \<^verbatim>\<open>serializers.py\<close>\<close>

text \<open>
  A model serializer reads from the data exactly the keys that are the names of its
  writable fields; other keys of the data are ignored. A field made from a column
  that is not nullable and has no default is required. The validated data of a
  serializer that is also used for partial updates is a record of optional values,
  \<open>None\<close> for a field that the data did not give.
\<close>

paragraph \<open>\<^verbatim>\<open>CategorySerializer\<close>: fields id (read only), title, slug\<close>

record category_attrs =
  at_title :: "string option"
  at_slug :: "string option"

definition CategorySerializer_is_valid :: "bool \<Rightarrow> pydict \<Rightarrow> category_attrs validation" where
  "CategorySerializer_is_valid partial data =
     (let title = run_field partial CharField (data ''title'');
          slug = run_field partial SlugField (data ''slug'');
          errs = field_error ''title'' title @ field_error ''slug'' slug
      in if errs \<noteq> [] then Errors errs
         else Validated \<lparr>at_title = field_value title, at_slug = field_value slug\<rparr>)"

definition CategorySerializer_create :: "db \<Rightarrow> category_attrs \<Rightarrow> exn + category_row \<times> db" where
  "CategorySerializer_create d a =
     (case (at_title a, at_slug a) of
        (Some t, Some s) \<Rightarrow>
          (let row = \<lparr>cat_id = next_id (map cat_id (Category_objects d)), cat_title = t, cat_slug = s\<rparr>
           in Inr (row, d\<lparr>Category_objects := Category_objects d @ [row]\<rparr>))
      | _ \<Rightarrow> Inl IntegrityError)"

definition CategorySerializer_update :: "db \<Rightarrow> category_row \<Rightarrow> category_attrs \<Rightarrow> category_row \<times> db" where
  "CategorySerializer_update d inst a =
     (let row = inst\<lparr>cat_title := (case at_title a of None \<Rightarrow> cat_title inst | Some t \<Rightarrow> t),
                     cat_slug := (case at_slug a of None \<Rightarrow> cat_slug inst | Some s \<Rightarrow> s)\<rparr>
      in (row, d\<lparr>Category_objects :=
                   map (\<lambda>r. if cat_id r = cat_id inst then row else r) (Category_objects d)\<rparr>))"

paragraph \<open>\<^verbatim>\<open>MenuItemSerializer\<close>: fields id (read only), title, price, category, featured\<close>

record menuitem_attrs =
  at_mi_title :: "string option"
  at_mi_price :: "rat option"
  at_mi_category :: "nat option"
  at_mi_featured :: "bool option"

definition MenuItemSerializer_is_valid :: "bool \<Rightarrow> db \<Rightarrow> pydict \<Rightarrow> menuitem_attrs validation" where
  "MenuItemSerializer_is_valid partial d data =
     (let title = run_field partial CharField (data ''title'');
          price = run_field partial DecimalField (data ''price'');
          category = run_field partial (PrimaryKeyRelatedField cat_id (Category_objects d))
                       (data ''category'');
          featured = run_field partial BooleanField (data ''featured'');
          errs = field_error ''title'' title @ field_error ''price'' price
                 @ field_error ''category'' category @ field_error ''featured'' featured
      in if errs \<noteq> [] then Errors errs
         else Validated \<lparr>at_mi_title = field_value title, at_mi_price = field_value price,
                          at_mi_category = field_value category,
                          at_mi_featured = field_value featured\<rparr>)"

definition MenuItemSerializer_create :: "db \<Rightarrow> menuitem_attrs \<Rightarrow> exn + menuitem_row \<times> db" where
  "MenuItemSerializer_create d a =
     (case (at_mi_title a, at_mi_price a, at_mi_category a, at_mi_featured a) of
        (Some t, Some p, Some c, Some f) \<Rightarrow>
          (let row = \<lparr>mi_id = next_id (map mi_id (MenuItem_objects d)), mi_title = t, mi_price = p,
                      mi_category = c, mi_featured = f\<rparr>
           in Inr (row, d\<lparr>MenuItem_objects := MenuItem_objects d @ [row]\<rparr>))
      | _ \<Rightarrow> Inl IntegrityError)"

definition MenuItemSerializer_update :: "db \<Rightarrow> menuitem_row \<Rightarrow> menuitem_attrs \<Rightarrow> menuitem_row \<times> db" where
  "MenuItemSerializer_update d inst a =
     (let row = inst\<lparr>mi_title := (case at_mi_title a of None \<Rightarrow> mi_title inst | Some t \<Rightarrow> t),
                     mi_price := (case at_mi_price a of None \<Rightarrow> mi_price inst | Some p \<Rightarrow> p),
                     mi_category := (case at_mi_category a of None \<Rightarrow> mi_category inst | Some c \<Rightarrow> c),
                     mi_featured := (case at_mi_featured a of None \<Rightarrow> mi_featured inst | Some f \<Rightarrow> f)\<rparr>
      in (row, d\<lparr>MenuItem_objects :=
                   map (\<lambda>r. if mi_id r = mi_id inst then row else r) (MenuItem_objects d)\<rparr>))"

paragraph \<open>\<^verbatim>\<open>CartSerializer\<close>: fields user, menuitem, unit_price, quantity, price (read only)\<close>

text \<open>
  The field \<open>user\<close> has the default \<^verbatim>\<open>CurrentUserDefault()\<close>, which reads
  \<^verbatim>\<open>context['request'].user\<close>: when the data has no key \<open>user\<close> and the serializer
  was built without a context, the lookup of \<^verbatim>\<open>'request'\<close> raises \<^verbatim>\<open>KeyError\<close>. The
  value of the default is the user of the request, \<open>None\<close> here for the anonymous
  user.
\<close>

definition user_field :: "request option \<Rightarrow> db \<Rightarrow> pyval option \<Rightarrow> exn + nat option field_result" where
  "user_field context d v =
     (case v of
        None \<Rightarrow>
          (case context of
             None \<Rightarrow> Inl (KeyError ''request'')
           | Some req \<Rightarrow> Inr (Valid (req_user req)))
      | Some VNone \<Rightarrow> Inr Invalid
      | Some x \<Rightarrow>
          Inr (case PrimaryKeyRelatedField usr_id (User_objects d) x of
                 None \<Rightarrow> Invalid
               | Some u \<Rightarrow> Valid (Some u)))"

record cart_attrs =
  at_cart_user :: "nat option"
  at_cart_menuitem :: nat
  at_cart_unit_price :: rat
  at_cart_quantity :: int
  at_cart_price :: "rat option"

text \<open>\<^verbatim>\<open>CartSerializer.validate\<close>: \<^verbatim>\<open>attrs["price"] = attrs["quantity"] * attrs["unit_price"]\<close>.\<close>

definition CartSerializer_validate :: "cart_attrs \<Rightarrow> cart_attrs" where
  "CartSerializer_validate attrs =
     attrs\<lparr>at_cart_price := Some (of_int (at_cart_quantity attrs) * at_cart_unit_price attrs)\<rparr>"

definition CartSerializer_is_valid :: "request option \<Rightarrow> db \<Rightarrow> pydict \<Rightarrow> cart_attrs validation" where
  "CartSerializer_is_valid context d data =
     (case user_field context d (data ''user'') of
        Inl e \<Rightarrow> Raised e
      | Inr user \<Rightarrow>
          (let menuitem = run_field False (PrimaryKeyRelatedField mi_id (MenuItem_objects d))
                            (data ''menuitem'');
               unit_price = run_field False DecimalField (data ''unit_price'');
               quantity = run_field False column_IntegerField (data ''quantity'');
               errs = field_error ''user'' user @ field_error ''menuitem'' menuitem
                      @ field_error ''unit_price'' unit_price @ field_error ''quantity'' quantity
           in (case (user, menuitem, unit_price, quantity) of
                 (Valid u, Valid m, Valid p, Valid q) \<Rightarrow>
                   Validated (CartSerializer_validate
                     \<lparr>at_cart_user = u, at_cart_menuitem = m, at_cart_unit_price = p,
                      at_cart_quantity = q, at_cart_price = None\<rparr>)
               | _ \<Rightarrow> Errors errs)))"

text \<open>
  Saving a cart. The specification has one cart for a user, enforced uniquely: the
  database refuses a second row for the user. The anonymous user is no row of the
  table of users and cannot be assigned.
\<close>

definition CartSerializer_save :: "db \<Rightarrow> cart_attrs \<Rightarrow> exn + cart_row \<times> db" where
  "CartSerializer_save d a =
     (case (at_cart_user a, at_cart_price a) of
        (None, _) \<Rightarrow> Inl ValueError
      | (Some u, None) \<Rightarrow> Inl IntegrityError
      | (Some u, Some p) \<Rightarrow>
          if filter (\<lambda>c. cart_user c = u) (Cart_objects d) \<noteq> [] then Inl IntegrityError
          else (let row = \<lparr>cart_user = u, cart_menuitem = at_cart_menuitem a,
                           cart_unit_price = at_cart_unit_price a,
                           cart_quantity = at_cart_quantity a, cart_price = p\<rparr>
                in Inr (row, d\<lparr>Cart_objects := Cart_objects d @ [row]\<rparr>)))"

paragraph \<open>\<^verbatim>\<open>OrderItemSerializer\<close>: fields order, menuitem, quantity, price\<close>

definition OrderItemSerializer_is_valid :: "db \<Rightarrow> pydict \<Rightarrow> orderitem_row validation" where
  "OrderItemSerializer_is_valid d data =
     (let order = run_field False (PrimaryKeyRelatedField ord_id (Order_objects d)) (data ''order'');
          menuitem = run_field False (PrimaryKeyRelatedField mi_id (MenuItem_objects d))
                       (data ''menuitem'');
          quantity = run_field False column_IntegerField (data ''quantity'');
          price = run_field False DecimalField (data ''price'');
          errs = field_error ''order'' order @ field_error ''menuitem'' menuitem
                 @ field_error ''quantity'' quantity @ field_error ''price'' price
      in (case (order, menuitem, quantity, price) of
            (Valid k, Valid m, Valid q, Valid p) \<Rightarrow>
              Validated \<lparr>oi_order = k, oi_menuitem = m, oi_quantity = q, oi_price = p\<rparr>
          | _ \<Rightarrow> Errors errs))"

definition OrderItemSerializer_save :: "db \<Rightarrow> orderitem_row \<Rightarrow> db" where
  "OrderItemSerializer_save d row = d\<lparr>OrderItem_objects := OrderItem_objects d @ [row]\<rparr>"

paragraph \<open>\<^verbatim>\<open>OrderSerializer\<close>: fields id (read only), user, delivery_crew, status, date,
  total, orderitem (read only, the items that refer to the order)\<close>

record order_attrs =
  at_ord_user :: "nat option"
  at_ord_delivery_crew :: "nat option option"
  at_ord_status :: "bool option"
  at_ord_date :: "date option"
  at_ord_total :: "rat option"

definition OrderSerializer_is_valid :: "bool \<Rightarrow> db \<Rightarrow> pydict \<Rightarrow> order_attrs validation" where
  "OrderSerializer_is_valid partial d data =
     (let user = run_field partial (PrimaryKeyRelatedField usr_id (User_objects d)) (data ''user'');
          delivery_crew = run_nullable_field (PrimaryKeyRelatedField usr_id (User_objects d))
                            (data ''delivery_crew'');
          status = run_field partial BooleanField (data ''status'');
          date = run_field partial DateField (data ''date'');
          total = run_field partial DecimalField (data ''total'');
          errs = field_error ''user'' user @ field_error ''delivery_crew'' delivery_crew
                 @ field_error ''status'' status @ field_error ''date'' date
                 @ field_error ''total'' total
      in if errs \<noteq> [] then Errors errs
         else Validated \<lparr>at_ord_user = field_value user,
                          at_ord_delivery_crew = field_value delivery_crew,
                          at_ord_status = field_value status, at_ord_date = field_value date,
                          at_ord_total = field_value total\<rparr>)"

definition OrderSerializer_create :: "db \<Rightarrow> order_attrs \<Rightarrow> exn + order_row \<times> db" where
  "OrderSerializer_create d a =
     (case (at_ord_user a, at_ord_status a, at_ord_date a, at_ord_total a) of
        (Some u, Some s, Some dt, Some t) \<Rightarrow>
          (let row = \<lparr>ord_id = next_id (map ord_id (Order_objects d)), ord_user = u,
                      ord_delivery_crew = (case at_ord_delivery_crew a of None \<Rightarrow> None | Some c \<Rightarrow> c),
                      ord_status = s, ord_date = dt, ord_total = t\<rparr>
           in Inr (row, d\<lparr>Order_objects := Order_objects d @ [row]\<rparr>))
      | _ \<Rightarrow> Inl IntegrityError)"

definition OrderSerializer_update :: "db \<Rightarrow> order_row \<Rightarrow> order_attrs \<Rightarrow> order_row \<times> db" where
  "OrderSerializer_update d inst a =
     (let row = inst\<lparr>ord_user := (case at_ord_user a of None \<Rightarrow> ord_user inst | Some u \<Rightarrow> u),
                     ord_delivery_crew :=
                       (case at_ord_delivery_crew a of None \<Rightarrow> ord_delivery_crew inst | Some c \<Rightarrow> c),
                     ord_status := (case at_ord_status a of None \<Rightarrow> ord_status inst | Some s \<Rightarrow> s),
                     ord_date := (case at_ord_date a of None \<Rightarrow> ord_date inst | Some dt \<Rightarrow> dt),
                     ord_total := (case at_ord_total a of None \<Rightarrow> ord_total inst | Some t \<Rightarrow> t)\<rparr>
      in (row, d\<lparr>Order_objects :=
                   map (\<lambda>r. if ord_id r = ord_id inst then row else r) (Order_objects d)\<rparr>))"

definition OrderSerializer_data :: "db \<Rightarrow> order_row \<Rightarrow> order_repr" where
  "OrderSerializer_data d order =
     (order, filter (\<lambda>i. oi_order i = ord_id order) (OrderItem_objects d))"

paragraph \<open>\<^verbatim>\<open>RatingSerializer\<close>: fields user, menuitem_id, rating (0 to 5), unique for
  user and menuitem_id\<close>

record rating_attrs =
  at_rt_user :: "nat option"
  at_rt_menuitem_id :: int
  at_rt_rating :: int

text \<open>
  \<^verbatim>\<open>extra_kwargs = {"rating": {"max_value": 5, "min_value": 0}}\<close>; the numbers from 0
  to 5 are in the range of the column.
\<close>

definition rating_field :: "pyval \<Rightarrow> int option" where
  "rating_field v =
     (case IntegerField v of
        None \<Rightarrow> None
      | Some n \<Rightarrow> if n \<le> 5 \<and> 0 \<le> n then Some n else None)"

text \<open>
  \<^verbatim>\<open>UniqueTogetherValidator(queryset=Rating.objects.all(), fields=["user", "menuitem_id"])\<close>
  runs on the validated data, after the fields.
\<close>

definition UniqueTogetherValidator :: "db \<Rightarrow> rating_attrs \<Rightarrow> bool" where
  "UniqueTogetherValidator d a =
     (case at_rt_user a of
        None \<Rightarrow> True
      | Some u \<Rightarrow>
          filter (\<lambda>r. rt_user r = u \<and> rt_menuitem_id r = at_rt_menuitem_id a) (Rating_objects d) = [])"

definition RatingSerializer_is_valid :: "request option \<Rightarrow> db \<Rightarrow> pydict \<Rightarrow> rating_attrs validation" where
  "RatingSerializer_is_valid context d data =
     (case user_field context d (data ''user'') of
        Inl e \<Rightarrow> Raised e
      | Inr user \<Rightarrow>
          (let menuitem_id = run_field False column_IntegerField (data ''menuitem_id'');
               rating = run_field False rating_field (data ''rating'');
               errs = field_error ''user'' user @ field_error ''menuitem_id'' menuitem_id
                      @ field_error ''rating'' rating
           in (case (user, menuitem_id, rating) of
                 (Valid u, Valid m, Valid r) \<Rightarrow>
                   (let attrs = \<lparr>at_rt_user = u, at_rt_menuitem_id = m, at_rt_rating = r\<rparr>
                    in if UniqueTogetherValidator d attrs then Validated attrs
                       else Errors [''non_field_errors''])
               | _ \<Rightarrow> Errors errs)))"

definition RatingSerializer_save :: "db \<Rightarrow> rating_attrs \<Rightarrow> exn + rating_row \<times> db" where
  "RatingSerializer_save d a =
     (case at_rt_user a of
        None \<Rightarrow> Inl ValueError
      | Some u \<Rightarrow>
          (let row = \<lparr>rt_user = u, rt_menuitem_id = at_rt_menuitem_id a, rt_rating = at_rt_rating a\<rparr>
           in Inr (row, d\<lparr>Rating_objects := Rating_objects d @ [row]\<rparr>)))"

subsection \<open>Queries: filters, ordering, pages\<close>

text \<open>A query parameter that is given and not empty (Python's \<^verbatim>\<open>if value:\<close>).\<close>

definition query_param :: "(string \<rightharpoonup> string) \<Rightarrow> string \<Rightarrow> string option" where
  "query_param q name = (case q name of None \<Rightarrow> None | Some s \<Rightarrow> if s = [] then None else Some s)"

text \<open>
  \<^verbatim>\<open>query_params.get(name, default=n)\<close> read as a number by \<^verbatim>\<open>int()\<close>, as the
  paginator does with the size and the number of a page.
\<close>

definition query_int :: "(string \<rightharpoonup> string) \<Rightarrow> string \<Rightarrow> int \<Rightarrow> int option" where
  "query_int q name dflt = (case q name of None \<Rightarrow> Some dflt | Some s \<Rightarrow> py_int s)"

text \<open>
  \<^verbatim>\<open>order_by(*fields)\<close> is one \<^verbatim>\<open>ORDER BY\<close> with the fields as its keys: a field
  name, with \<^verbatim>\<open>-\<close> in front for the descending order; rows that agree on a field
  are compared on the fields after it. A name that is not a column is a
  \<^verbatim>\<open>FieldError\<close>; orderings across a relation and the random ordering are not
  modelled. The sorting itself is the database's.
\<close>

definition field_le :: "('a \<Rightarrow> 'k::linorder) \<Rightarrow> bool \<Rightarrow> 'a \<Rightarrow> 'a \<Rightarrow> bool" where
  "field_le key descending a b = (if descending then key b \<le> key a else key a \<le> key b)"

fun lex_le :: "('a \<Rightarrow> 'a \<Rightarrow> bool) list \<Rightarrow> 'a \<Rightarrow> 'a \<Rightarrow> bool" where
  "lex_le [] a b = True"
| "lex_le (c # cs) a b = (if c a b \<and> c b a then lex_le cs a b else c a b)"

definition order_dir :: "string \<Rightarrow> bool \<times> string" where
  "order_dir f = (case f of [] \<Rightarrow> (False, []) | c # r \<Rightarrow> if c = CHR ''-'' then (True, r) else (False, f))"

fun comparisons ::
  "(string \<Rightarrow> ('a \<Rightarrow> 'a \<Rightarrow> bool) option) \<Rightarrow> string list \<Rightarrow> ('a \<Rightarrow> 'a \<Rightarrow> bool) list option" where
  "comparisons column [] = Some []"
| "comparisons column (f # fs) =
     (case column f of
        None \<Rightarrow> None
      | Some c \<Rightarrow> (case comparisons column fs of None \<Rightarrow> None | Some cs \<Rightarrow> Some (c # cs)))"

definition order_by ::
  "(('a \<Rightarrow> 'a \<Rightarrow> bool) \<Rightarrow> 'a list \<Rightarrow> 'a list) \<Rightarrow> (string \<Rightarrow> ('a \<Rightarrow> 'a \<Rightarrow> bool) option)
     \<Rightarrow> string list \<Rightarrow> 'a list \<Rightarrow> exn + 'a list" where
  "order_by engine column names rows =
     (case comparisons column names of
        None \<Rightarrow> Inl FieldError
      | Some cs \<Rightarrow> Inr (engine (lex_le cs) rows))"

definition order_menuitems :: "string \<Rightarrow> (menuitem_row \<Rightarrow> menuitem_row \<Rightarrow> bool) option" where
  "order_menuitems f =
     (let (descending, name) = order_dir f
      in if name \<in> set [''id'', ''pk''] then Some (field_le mi_id descending)
         else if name = ''title'' then Some (field_le mi_title descending)
         else if name = ''price'' then Some (field_le mi_price descending)
         else if name \<in> set [''category'', ''category_id'']
         then Some (field_le mi_category descending)
         else if name = ''featured'' then Some (field_le mi_featured descending)
         else None)"

definition order_orders :: "string \<Rightarrow> (order_row \<Rightarrow> order_row \<Rightarrow> bool) option" where
  "order_orders f =
     (let (descending, name) = order_dir f
      in if name \<in> set [''id'', ''pk''] then Some (field_le ord_id descending)
         else if name \<in> set [''user'', ''user_id''] then Some (field_le ord_user descending)
         else if name \<in> set [''delivery_crew'', ''delivery_crew_id'']
         then Some (field_le ord_delivery_crew descending)
         else if name = ''status'' then Some (field_le ord_status descending)
         else if name = ''date'' then Some (field_le ord_date descending)
         else if name = ''total'' then Some (field_le ord_total descending)
         else None)"

text \<open>
  \<^verbatim>\<open>django.core.paginator.Paginator(object_list, per_page)\<close>, with no orphans and an
  empty first page allowed. The number of pages is
  \<^verbatim>\<open>ceil(max(1, count) / per_page)\<close>; \<^verbatim>\<open>page(number)\<close> raises \<^verbatim>\<open>EmptyPage\<close> for a
  number below 1 or above the number of pages, and is the slice
  \<^verbatim>\<open>object_list[(number - 1) * per_page : number * per_page]\<close> otherwise.
\<close>

definition num_pages :: "nat \<Rightarrow> int \<Rightarrow> int" where
  "num_pages n_rows per_page = - ((- int (max 1 n_rows)) div per_page)"

datatype 'a page_result = PageError exn | EmptyPage | Page "'a list"

definition Paginator_page :: "'a list \<Rightarrow> int \<Rightarrow> int \<Rightarrow> 'a page_result" where
  "Paginator_page object_list per_page number =
     (if number < 1 then EmptyPage
      else if per_page = 0 then PageError ZeroDivisionError
      else if num_pages (length object_list) per_page < number then EmptyPage
      else (let bottom = (number - 1) * per_page;
                top = (if int (length object_list) \<le> bottom + per_page
                       then int (length object_list) else bottom + per_page)
            in Page (take (nat (top - bottom)) (drop (nat bottom) object_list))))"

text \<open>
  The pagination of the two list views (lines 127-128 and 139-143, 379-380 and
  389-393): the size of a page is the parameter \<open>perpage\<close>, 2 when it is not given,
  the number of the page is the parameter \<open>page\<close>, 1 when it is not given; only
  \<^verbatim>\<open>EmptyPage\<close> is caught, and gives the empty list.
\<close>

definition paginate :: "(string \<rightharpoonup> string) \<Rightarrow> 'a list \<Rightarrow> exn + 'a list" where
  "paginate q items =
     (case query_int q ''perpage'' 2 of
        None \<Rightarrow> Inl ValueError
      | Some perpage \<Rightarrow>
          (case query_int q ''page'' 1 of
             None \<Rightarrow> Inl PageNotAnInteger
           | Some page \<Rightarrow>
               (case Paginator_page items perpage page of
                  PageError e \<Rightarrow> Inl e
                | EmptyPage \<Rightarrow> Inr []
                | Page xs \<Rightarrow> Inr xs)))"

text \<open>
  The query of the list of menu items (lines 122-137): the title of the category,
  the highest price, a part of the title, the ordering.
\<close>

definition menuitems_query :: "db \<Rightarrow> (string \<rightharpoonup> string) \<Rightarrow> exn + menuitem_row list" where
  "menuitems_query d q =
     (let items = MenuItem_objects d;
          items = (case query_param q ''category'' of
                     None \<Rightarrow> items
                   | Some category_name \<Rightarrow>
                       filter (\<lambda>i. filter (\<lambda>c. cat_id c = mi_category i \<and> cat_title c = category_name)
                                     (Category_objects d) \<noteq> []) items)
      in (case (case query_param q ''to_price'' of
                  None \<Rightarrow> Inr items
                | Some to_price \<Rightarrow>
                    (case py_decimal to_price of
                       None \<Rightarrow> Inl ValidationError
                     | Some p \<Rightarrow> Inr (filter (\<lambda>i. mi_price i \<le> p) items))) of
            Inl e \<Rightarrow> Inl e
          | Inr items \<Rightarrow>
              (let items = (case query_param q ''search'' of
                              None \<Rightarrow> items
                            | Some search \<Rightarrow> filter (\<lambda>i. icontains (mi_title i) search) items)
               in (case query_param q ''ordering'' of
                     None \<Rightarrow> Inr items
                   | Some ordering_fields \<Rightarrow>
                       order_by (MenuItem_order_by d) order_menuitems
                         (split_on CHR '','' ordering_fields) items))))"

text \<open>
  The query of the Manager's list of orders (lines 375-387): the highest total, a
  part of the status, the ordering. The status is stored as 0 or 1 and the pattern
  is matched against that digit, as SQLite, Django's default database, does.
\<close>

definition status_text :: "bool \<Rightarrow> string" where
  "status_text b = (if b then ''1'' else ''0'')"

definition orders_query :: "db \<Rightarrow> (string \<rightharpoonup> string) \<Rightarrow> exn + order_row list" where
  "orders_query d q =
     (case (case query_param q ''to_price'' of
              None \<Rightarrow> Inr (Order_objects d)
            | Some to_price \<Rightarrow>
                (case py_decimal to_price of
                   None \<Rightarrow> Inl ValidationError
                 | Some p \<Rightarrow> Inr (filter (\<lambda>x. ord_total x \<le> p) (Order_objects d)))) of
        Inl e \<Rightarrow> Inl e
      | Inr orders \<Rightarrow>
          (let orders = (case query_param q ''search'' of
                           None \<Rightarrow> orders
                         | Some search \<Rightarrow> filter (\<lambda>x. icontains (status_text (ord_status x)) search) orders)
           in (case query_param q ''ordering'' of
                 None \<Rightarrow> Inr orders
               | Some ordering_fields \<Rightarrow>
                   order_by (Order_order_by d) order_orders
                     (split_on CHR '','' ordering_fields) orders)))"

subsection \<open>Deleting rows\<close>

text \<open>
  Modelled from the spec: what a deletion does to the rows that refer to the deleted
  row is declared in \<^verbatim>\<open>models.py\<close>. An order owns its items; the model deletes the
  referring rows with the row, for every reference.
\<close>

definition MenuItem_delete :: "db \<Rightarrow> nat \<Rightarrow> db" where
  "MenuItem_delete d k =
     d\<lparr>MenuItem_objects := filter (\<lambda>r. mi_id r \<noteq> k) (MenuItem_objects d),
       Cart_objects := filter (\<lambda>c. cart_menuitem c \<noteq> k) (Cart_objects d),
       OrderItem_objects := filter (\<lambda>i. oi_menuitem i \<noteq> k) (OrderItem_objects d)\<rparr>"

definition Category_delete :: "db \<Rightarrow> nat \<Rightarrow> db" where
  "Category_delete d k =
     (let d' = fold (\<lambda>i acc. MenuItem_delete acc (mi_id i))
                 (filter (\<lambda>i. mi_category i = k) (MenuItem_objects d)) d
      in d'\<lparr>Category_objects := filter (\<lambda>r. cat_id r \<noteq> k) (Category_objects d')\<rparr>)"

definition Order_delete :: "db \<Rightarrow> nat \<Rightarrow> db" where
  "Order_delete d k =
     d\<lparr>Order_objects := filter (\<lambda>r. ord_id r \<noteq> k) (Order_objects d),
       OrderItem_objects := filter (\<lambda>i. oi_order i \<noteq> k) (OrderItem_objects d)\<rparr>"

definition Cart_delete :: "db \<Rightarrow> nat \<Rightarrow> db" where
  "Cart_delete d u = d\<lparr>Cart_objects := filter (\<lambda>c. cart_user c \<noteq> u) (Cart_objects d)\<rparr>"

subsection \<open>The views of \<^verbatim>\<open>views-function.py\<close>\<close>

text \<open>
  Each view is the body of the Python function, with the request and the database
  as arguments; the decorators are applied where the views are dispatched. A
  Python function that ends without a \<^verbatim>\<open>return\<close> gives \<^verbatim>\<open>None\<close>, which the
  framework refuses with an \<^verbatim>\<open>AssertionError\<close>.
\<close>

definition truthy :: "pyval \<Rightarrow> bool" where
  "truthy v =
     (case v of
        VNone \<Rightarrow> False
      | VBool b \<Rightarrow> b
      | VInt n \<Rightarrow> n \<noteq> 0
      | VStr s \<Rightarrow> s \<noteq> []
      | VDec r \<Rightarrow> r \<noteq> 0)"

text \<open>\<^verbatim>\<open>Decimal(value)\<close>.\<close>

definition py_Decimal :: "pyval \<Rightarrow> exn + rat" where
  "py_Decimal v =
     (case v of
        VNone \<Rightarrow> Inl TypeError
      | VBool b \<Rightarrow> Inr (if b then 1 else 0)
      | VInt n \<Rightarrow> Inr (of_int n)
      | VStr s \<Rightarrow> (case py_decimal s of None \<Rightarrow> Inl InvalidOperation | Some r \<Rightarrow> Inr r)
      | VDec r \<Rightarrow> Inr r)"

text \<open>
  The lookup \<^verbatim>\<open>username=value\<close> compares the name with \<^verbatim>\<open>str(value)\<close>. A
  \<^verbatim>\<open>Decimal\<close> does not occur in a payload and matches no name.
\<close>

definition username_is :: "pyval \<Rightarrow> string \<Rightarrow> bool" where
  "username_is v name =
     (case v of
        VNone \<Rightarrow> name = ''None''
      | VBool b \<Rightarrow> name = (if b then ''True'' else ''False'')
      | VInt n \<Rightarrow> name = show_int n
      | VStr s \<Rightarrow> name = s
      | VDec r \<Rightarrow> False)"

paragraph \<open>\<^verbatim>\<open>category\<close>, lines 45-64\<close>

definition category :: "request \<Rightarrow> db \<Rightarrow> response \<times> db" where
  "category req d =
     (if req_method req = GET
      then (Response (PCategories (Category_objects d)) (Some HTTP_200_OK), d)
      else if req_method req = POST \<and> in_group d (req_user req) ''Manager''
      then (case CategorySerializer_is_valid False (req_data req) of
              Raised e \<Rightarrow> (server_error e, d)
            | Errors errs \<Rightarrow> (validation_error errs, d)
            | Validated a \<Rightarrow>
                (case CategorySerializer_create d a of
                   Inl e \<Rightarrow> (server_error e, d)
                 | Inr (row, d') \<Rightarrow> (Response (PCategory row) (Some HTTP_201_CREATED), d')))
      else (not_authorized, d))"

paragraph \<open>\<^verbatim>\<open>category_single\<close>, lines 68-110\<close>

definition category_update :: "bool \<Rightarrow> request \<Rightarrow> category_row \<Rightarrow> db \<Rightarrow> response \<times> db" where
  "category_update partial req item d =
     (case CategorySerializer_is_valid partial (req_data req) of
        Raised e \<Rightarrow> (server_error e, d)
      | Errors errs \<Rightarrow> (validation_error errs, d)
      | Validated a \<Rightarrow>
          (let (row, d') = CategorySerializer_update d item a
           in (Response (PCategory row) (Some HTTP_205_RESET_CONTENT), d')))"

definition category_single :: "request \<Rightarrow> nat \<Rightarrow> db \<Rightarrow> response \<times> db" where
  "category_single req pk d =
     (case get_object_or_404 (filter (\<lambda>r. cat_id r = pk) (Category_objects d)) of
        Inl r \<Rightarrow> (r, d)
      | Inr item \<Rightarrow>
          if req_method req = GET then (Response (PCategory item) (Some HTTP_200_OK), d)
          else if req_method req = POST then (not_authorized, d)
          else if \<not> in_group d (req_user req) ''Manager'' then (not_authorized, d)
          else if req_method req = PUT then category_update False req item d
          else if req_method req = PATCH then category_update True req item d
          else if req_method req = DELETE
          then (Response (PMessage (cat_title item @ '' is deleted.'')) (Some HTTP_204_NO_CONTENT),
                Category_delete d (cat_id item))
          else (server_error AssertionError, d))"

paragraph \<open>\<^verbatim>\<open>menuitems\<close>, lines 118-151\<close>

definition menuitems :: "request \<Rightarrow> db \<Rightarrow> response \<times> db" where
  "menuitems req d =
     (if req_method req = GET
      then (case menuitems_query d (req_query req) of
              Inl e \<Rightarrow> (server_error e, d)
            | Inr items \<Rightarrow>
                (case paginate (req_query req) items of
                   Inl e \<Rightarrow> (server_error e, d)
                 | Inr page \<Rightarrow> (Response (PMenuItems page) (Some HTTP_200_OK), d)))
      else if req_method req = POST \<and> in_group d (req_user req) ''Manager''
      then (case MenuItemSerializer_is_valid False d (req_data req) of
              Raised e \<Rightarrow> (server_error e, d)
            | Errors errs \<Rightarrow> (validation_error errs, d)
            | Validated a \<Rightarrow>
                (case MenuItemSerializer_create d a of
                   Inl e \<Rightarrow> (server_error e, d)
                 | Inr (row, d') \<Rightarrow> (Response (PMenuItem row) (Some HTTP_201_CREATED), d')))
      else (not_authorized, d))"

paragraph \<open>\<^verbatim>\<open>menuitems_single\<close>, lines 160-186\<close>

definition menuitem_update :: "bool \<Rightarrow> request \<Rightarrow> menuitem_row \<Rightarrow> db \<Rightarrow> response \<times> db" where
  "menuitem_update partial req item d =
     (case MenuItemSerializer_is_valid partial d (req_data req) of
        Raised e \<Rightarrow> (server_error e, d)
      | Errors errs \<Rightarrow> (validation_error errs, d)
      | Validated a \<Rightarrow>
          (let (row, d') = MenuItemSerializer_update d item a
           in (Response (PMenuItem row) (Some HTTP_205_RESET_CONTENT), d')))"

definition menuitems_single :: "request \<Rightarrow> nat \<Rightarrow> db \<Rightarrow> response \<times> db" where
  "menuitems_single req pk d =
     (case get_object_or_404 (filter (\<lambda>r. mi_id r = pk) (MenuItem_objects d)) of
        Inl r \<Rightarrow> (r, d)
      | Inr item \<Rightarrow>
          if req_method req = GET then (Response (PMenuItem item) (Some HTTP_200_OK), d)
          else if req_method req = POST \<or> \<not> in_group d (req_user req) ''Manager''
          then (not_authorized, d)
          else if req_method req = PUT then menuitem_update False req item d
          else if req_method req = PATCH then menuitem_update True req item d
          else if req_method req = DELETE
          then (Response (PInt HTTP_204_NO_CONTENT) None, MenuItem_delete d (mi_id item))
          else (server_error AssertionError, d))"

paragraph \<open>\<^verbatim>\<open>manager_set\<close> and \<^verbatim>\<open>delivery_set\<close>, lines 193-219 and 256-281\<close>

text \<open>
  The two views differ in the name of the group and in the message. The message is
  \<^verbatim>\<open>"User " + username + ...\<close>, a \<^verbatim>\<open>TypeError\<close> when the name in the payload is not
  a string; the user is in the group by then.
\<close>

definition group_set :: "string \<Rightarrow> string \<Rightarrow> request \<Rightarrow> db \<Rightarrow> response \<times> db" where
  "group_set group_name role req d =
     (if \<not> in_group d (req_user req) ''Manager'' then (not_authorized, d)
      else if req_method req = POST
      then (case req_data req ''username'' of
              None \<Rightarrow> (server_error (KeyError ''username''), d)
            | Some username \<Rightarrow>
                if truthy username
                then (case get_object_or_404
                             (filter (\<lambda>u. username_is username (usr_username u)) (User_objects d)) of
                        Inl r \<Rightarrow> (r, d)
                      | Inr user \<Rightarrow>
                          (case Group_objects d group_name of
                             None \<Rightarrow> (server_error DoesNotExist, d)
                           | Some members \<Rightarrow>
                               (let d' = d\<lparr>Group_objects :=
                                            (Group_objects d)(group_name \<mapsto> insert (usr_id user) members)\<rparr>
                                in (case username of
                                      VStr s \<Rightarrow>
                                        (Response (PMessage (''User '' @ s @ '' is set as '' @ role @ ''.''))
                                           (Some HTTP_201_CREATED), d')
                                    | _ \<Rightarrow> (server_error TypeError, d')))))
                else (Response (PMessage ''Username is incorrect or not existed.'')
                        (Some HTTP_400_BAD_REQUEST), d))
      else if req_method req = GET
      then (case Group_objects d group_name of
              None \<Rightarrow> (server_error DoesNotExist, d)
            | Some members \<Rightarrow>
                (Response (PUsers (filter (\<lambda>u. usr_id u \<in> members) (User_objects d))) None, d))
      else (server_error AssertionError, d))"

definition manager_set :: "request \<Rightarrow> db \<Rightarrow> response \<times> db" where
  "manager_set = group_set ''Manager'' ''manager''"

definition delivery_set :: "request \<Rightarrow> db \<Rightarrow> response \<times> db" where
  "delivery_set = group_set ''Delivery crew'' ''delivery crew''"

paragraph \<open>\<^verbatim>\<open>manager_delete\<close> and \<^verbatim>\<open>delivery_delete\<close>, lines 226-249 and 288-312\<close>

text \<open>
  The message of the removal is \<^verbatim>\<open>"User " + user.get_username + ...\<close>, a string
  added to a method: a \<^verbatim>\<open>TypeError\<close>, raised when the user has left the group.
\<close>

definition group_delete :: "string \<Rightarrow> string \<Rightarrow> request \<Rightarrow> nat \<Rightarrow> db \<Rightarrow> response \<times> db" where
  "group_delete group_name role req pk d =
     (if in_group d (req_user req) ''Manager''
      then (if req_method req \<noteq> DELETE
            then (Response (PMessage ''This endpoint only supports DELETE.'')
                    (Some HTTP_400_BAD_REQUEST), d)
            else (case get_object_or_404 (filter (\<lambda>u. usr_id u = pk) (User_objects d)) of
                    Inl r \<Rightarrow> (r, d)
                  | Inr user \<Rightarrow>
                      (case Group_objects d group_name of
                         None \<Rightarrow>
                           (Response (PMessage (''This user is not a '' @ role)) (Some HTTP_400_BAD_REQUEST), d)
                       | Some members \<Rightarrow>
                           if usr_id user \<in> members
                           then (server_error TypeError,
                                 d\<lparr>Group_objects := (Group_objects d)(group_name \<mapsto> members - {usr_id user})\<rparr>)
                           else (Response (PMessage (''This user is not a '' @ role))
                                   (Some HTTP_400_BAD_REQUEST), d))))
      else (not_authorized, d))"

definition manager_delete :: "request \<Rightarrow> nat \<Rightarrow> db \<Rightarrow> response \<times> db" where
  "manager_delete = group_delete ''Manager'' ''manager''"

definition delivery_delete :: "request \<Rightarrow> nat \<Rightarrow> db \<Rightarrow> response \<times> db" where
  "delivery_delete = group_delete ''Delivery crew'' ''delivery crew''"

paragraph \<open>\<^verbatim>\<open>cart\<close>, lines 320-358\<close>

text \<open>
  Lines 339-349: the dictionary that the view hands to the serializer of carts. Its
  keys are \<open>menuitem_id\<close>, \<open>quantity\<close>, \<open>unit_price\<close>, \<open>price\<close> and \<open>user_id\<close>.
\<close>

definition cart_data :: "request \<Rightarrow> db \<Rightarrow> exn + pydict" where
  "cart_data req d =
     (case req_data req ''menuitem'' of
        None \<Rightarrow> Inl (KeyError ''menuitem'')
      | Some menuitem \<Rightarrow>
          (case req_data req ''quantity'' of
             None \<Rightarrow> Inl (KeyError ''quantity'')
           | Some quantity \<Rightarrow>
               (case get_by_pk mi_id (MenuItem_objects d) menuitem of
                  Inl e \<Rightarrow> Inl e
                | Inr item \<Rightarrow>
                    (let unit_price = mi_price item
                     in (case py_Decimal quantity of
                           Inl e \<Rightarrow> Inl e
                         | Inr q \<Rightarrow>
                             (let price = q * unit_price
                              in Inr [''menuitem_id'' \<mapsto> menuitem,
                                      ''quantity'' \<mapsto> quantity,
                                      ''unit_price'' \<mapsto> VDec unit_price,
                                      ''price'' \<mapsto> VDec price,
                                      ''user_id'' \<mapsto> (case req_user req of
                                                            None \<Rightarrow> VNone
                                                          | Some u \<Rightarrow> VInt (int u))]))))))"

text \<open>
  The view builds the serializer as \<^verbatim>\<open>CartSerializer(data=data)\<close>, without a
  context. A successful \<^verbatim>\<open>DELETE\<close> returns \<^verbatim>\<open>Response(status.HTTP_204_NO_CONTENT)\<close>:
  the number is the payload.
\<close>

definition cart :: "request \<Rightarrow> db \<Rightarrow> response \<times> db" where
  "cart req d =
     (if req_method req = GET
      then (case get_row (filter (\<lambda>c. Some (cart_user c) = req_user req) (Cart_objects d)) of
              Inl e \<Rightarrow> (Response (PMessage ''The cart is empty.'') (Some HTTP_400_BAD_REQUEST), d)
            | Inr c \<Rightarrow> (Response (PCart c) (Some HTTP_200_OK), d))
      else if req_method req = POST
      then (if filter (\<lambda>c. Some (cart_user c) = req_user req) (Cart_objects d) \<noteq> []
            then (Response (PMessage ''The user has already a cart.'') (Some HTTP_400_BAD_REQUEST), d)
            else (case cart_data req d of
                    Inl e \<Rightarrow> (server_error e, d)
                  | Inr data \<Rightarrow>
                      (case CartSerializer_is_valid None d data of
                         Raised e \<Rightarrow> (server_error e, d)
                       | Errors errs \<Rightarrow> (validation_error errs, d)
                       | Validated a \<Rightarrow>
                           (case CartSerializer_save d a of
                              Inl e \<Rightarrow> (server_error e, d)
                            | Inr (row, d') \<Rightarrow>
                                (Response (PMessage ''Cart is created.'') (Some HTTP_201_CREATED), d')))))
      else if req_method req = DELETE
      then (case get_object_or_404 (filter (\<lambda>c. Some (cart_user c) = req_user req) (Cart_objects d)) of
              Inl r \<Rightarrow> (r, d)
            | Inr c \<Rightarrow> (Response (PInt HTTP_204_NO_CONTENT) None, Cart_delete d (cart_user c)))
      else (server_error AssertionError, d))"

paragraph \<open>\<^verbatim>\<open>order\<close>, lines 369-434\<close>

text \<open>
  Lines 411-417: the dictionary that the view hands to the serializer of order
  items. Its keys are \<open>user_id\<close>, \<open>menuitem_id\<close>, \<open>quantity\<close>, \<open>unit_price\<close> and
  \<open>price\<close>.
\<close>

definition orderitem_data :: "cart_row \<Rightarrow> pydict" where
  "orderitem_data c =
     [''user_id'' \<mapsto> VInt (int (cart_user c)),
      ''menuitem_id'' \<mapsto> VInt (int (cart_menuitem c)),
      ''quantity'' \<mapsto> VInt (cart_quantity c),
      ''unit_price'' \<mapsto> VDec (cart_unit_price c),
      ''price'' \<mapsto> VDec (cart_price c)]"

text \<open>
  The customer's list (lines 401-406) hands the query set to the serializer without
  \<^verbatim>\<open>many=True\<close>: reading the field \<open>user\<close> of a query set is an
  \<^verbatim>\<open>AttributeError\<close>. With no order it returns \<^verbatim>\<open>Response(status.HTTP_404_NOT_FOUND)\<close>:
  the number is the payload.

  In the creation of an order, line 421 looks the new item up by \<open>user\<close>, which is
  no column of an order item (section 3 of the specification: order, menuitem,
  quantity, price): a \<^verbatim>\<open>FieldError\<close>, raised when the item is saved. Lines 422-433
  (the order, the deletion of the cart) come after it.
\<close>

definition order :: "request \<Rightarrow> db \<Rightarrow> response \<times> db" where
  "order req d =
     (if req_method req = GET
      then (if in_group d (req_user req) ''Manager''
            then (case orders_query d (req_query req) of
                    Inl e \<Rightarrow> (server_error e, d)
                  | Inr orders \<Rightarrow>
                      (case paginate (req_query req) orders of
                         Inl e \<Rightarrow> (server_error e, d)
                       | Inr page \<Rightarrow>
                           (Response (POrders (map (OrderSerializer_data d) page)) (Some HTTP_200_OK), d)))
            else if in_group d (req_user req) ''Delivery crew''
            then (Response (POrders (map (OrderSerializer_data d)
                              (filter (\<lambda>x. ord_delivery_crew x = req_user req) (Order_objects d))))
                    (Some HTTP_200_OK), d)
            else if filter (\<lambda>x. Some (ord_user x) = req_user req) (Order_objects d) \<noteq> []
            then (server_error AttributeError, d)
            else (Response (PInt HTTP_404_NOT_FOUND) None, d))
      else if req_method req = POST
      then (case get_object_or_404 (filter (\<lambda>c. Some (cart_user c) = req_user req) (Cart_objects d)) of
              Inl r \<Rightarrow> (r, d)
            | Inr c \<Rightarrow>
                (case OrderItemSerializer_is_valid d (orderitem_data c) of
                   Raised e \<Rightarrow> (server_error e, d)
                 | Errors errs \<Rightarrow> (validation_error errs, d)
                 | Validated item \<Rightarrow> (server_error FieldError, OrderItemSerializer_save d item)))
      else (not_authorized, d))"

paragraph \<open>\<^verbatim>\<open>order_single\<close>, lines 448-498\<close>

definition order_update :: "bool \<Rightarrow> pydict \<Rightarrow> order_row \<Rightarrow> db \<Rightarrow> response \<times> db" where
  "order_update partial data inst d =
     (case OrderSerializer_is_valid partial d data of
        Raised e \<Rightarrow> (server_error e, d)
      | Errors errs \<Rightarrow> (validation_error errs, d)
      | Validated a \<Rightarrow>
          (let (row, d') = OrderSerializer_update d inst a
           in (Response (POrder (OrderSerializer_data d' row)) (Some HTTP_205_RESET_CONTENT), d')))"

definition order_single :: "request \<Rightarrow> nat \<Rightarrow> db \<Rightarrow> response \<times> db" where
  "order_single req pk d =
     (case get_object_or_404 (filter (\<lambda>r. ord_id r = pk) (Order_objects d)) of
        Inl r \<Rightarrow> (r, d)
      | Inr inst \<Rightarrow>
          if req_method req = GET
          then (if Some (ord_user inst) \<noteq> req_user req then (not_authorized, d)
                else (Response (POrder (OrderSerializer_data d inst)) (Some HTTP_200_OK), d))
          else if req_method req = PUT
          then (if \<not> in_group d (req_user req) ''Manager'' then (not_authorized, d)
                else order_update False (req_data req) inst d)
          else if req_method req = PATCH
          then (if in_group d (req_user req) ''Delivery crew''
                then (if ord_delivery_crew inst \<noteq> req_user req
                      then (not_authorized, d)
                      else (case req_data req ''status'' of
                              None \<Rightarrow> (server_error (KeyError ''status''), d)
                            | Some deliverystatus \<Rightarrow>
                                order_update True [''status'' \<mapsto> deliverystatus] inst d))
                else if in_group d (req_user req) ''Manager''
                then order_update True (req_data req) inst d
                else (not_authorized, d))
          else if req_method req = DELETE
          then (if \<not> in_group d (req_user req) ''Manager'' then (not_authorized, d)
                else (Response (PInt HTTP_204_NO_CONTENT) None, Order_delete d (ord_id inst)))
          else (server_error AssertionError, d))"

paragraph \<open>\<^verbatim>\<open>RatingsView\<close>, lines 501-508\<close>

text \<open>
  A generic list-and-create view: everyone may list the ratings, the other methods
  need an authenticated user, and the serializer is built with the request as its
  context.
\<close>

definition RatingsView :: "request \<Rightarrow> db \<Rightarrow> response \<times> db" where
  "RatingsView req d =
     (if req_method req = GET then (Response (PRatings (Rating_objects d)) (Some HTTP_200_OK), d)
      else if req_user req = None
      then (Response (PDetail ''Authentication credentials were not provided.'')
              (Some HTTP_401_UNAUTHORIZED), d)
      else if req_method req = POST
      then (case RatingSerializer_is_valid (Some req) d (req_data req) of
              Raised e \<Rightarrow> (server_error e, d)
            | Errors errs \<Rightarrow> (validation_error errs, d)
            | Validated a \<Rightarrow>
                (case RatingSerializer_save d a of
                   Inl e \<Rightarrow> (server_error e, d)
                 | Inr (row, d') \<Rightarrow> (Response (PRating row) (Some HTTP_201_CREATED), d')))
      else (Response (PDetail ''Method not allowed.'') (Some HTTP_405_METHOD_NOT_ALLOWED), d))"

subsection \<open>The endpoints\<close>

text \<open>The views under their decorators (methods, \<^verbatim>\<open>IsAuthenticated\<close>).\<close>

datatype endpoint =
    Categories
  | Category nat
  | MenuItems
  | MenuItem nat
  | ManagerUsers
  | ManagerUser nat
  | DeliveryCrewUsers
  | DeliveryCrewUser nat
  | CartMenuItems
  | Orders
  | Order nat
  | Ratings

fun handle :: "endpoint \<Rightarrow> request \<Rightarrow> db \<Rightarrow> response \<times> db" where
  "handle Categories = api_view [GET, POST] True category"
| "handle (Category pk) = api_view [GET, POST, PUT, PATCH, DELETE] True (\<lambda>req. category_single req pk)"
| "handle MenuItems = api_view [GET, POST] False menuitems"
| "handle (MenuItem pk) = api_view [GET, PUT, PATCH, DELETE] False (\<lambda>req. menuitems_single req pk)"
| "handle ManagerUsers = api_view [GET, POST] True manager_set"
| "handle (ManagerUser pk) = api_view [DELETE] True (\<lambda>req. manager_delete req pk)"
| "handle DeliveryCrewUsers = api_view [GET, POST] True delivery_set"
| "handle (DeliveryCrewUser pk) = api_view [DELETE] True (\<lambda>req. delivery_delete req pk)"
| "handle CartMenuItems = api_view [GET, POST, DELETE] True cart"
| "handle Orders = api_view [GET, POST] True order"
| "handle (Order pk) = api_view [GET, PUT, PATCH, DELETE] True (\<lambda>req. order_single req pk)"
| "handle Ratings = RatingsView"

subsection \<open>The authorization rules of the specification\<close>

text \<open>
  Section 4.1 of the specification, in its words: the changing methods on categories
  and menu items require the Manager; on an order, \<^verbatim>\<open>PUT\<close> and \<^verbatim>\<open>DELETE\<close> require the
  Manager and \<^verbatim>\<open>PATCH\<close> allows the Manager or the Delivery crew member the order is
  assigned to; the rosters of the groups require the Manager. \<open>role_denied\<close> holds
  of a request that these rules disallow.
\<close>

fun role_denied :: "endpoint \<Rightarrow> request \<Rightarrow> db \<Rightarrow> bool" where
  "role_denied Categories req d =
     (req_method req \<in> set [POST, PUT, PATCH, DELETE] \<and> \<not> in_group d (req_user req) ''Manager'')"
| "role_denied (Category pk) req d =
     (req_method req \<in> set [POST, PUT, PATCH, DELETE] \<and> \<not> in_group d (req_user req) ''Manager'')"
| "role_denied MenuItems req d =
     (req_method req \<in> set [POST, PUT, PATCH, DELETE] \<and> \<not> in_group d (req_user req) ''Manager'')"
| "role_denied (MenuItem pk) req d =
     (req_method req \<in> set [POST, PUT, PATCH, DELETE] \<and> \<not> in_group d (req_user req) ''Manager'')"
| "role_denied ManagerUsers req d = (\<not> in_group d (req_user req) ''Manager'')"
| "role_denied (ManagerUser pk) req d = (\<not> in_group d (req_user req) ''Manager'')"
| "role_denied DeliveryCrewUsers req d = (\<not> in_group d (req_user req) ''Manager'')"
| "role_denied (DeliveryCrewUser pk) req d = (\<not> in_group d (req_user req) ''Manager'')"
| "role_denied (Order pk) req d =
     (if req_method req \<in> set [PUT, DELETE] then \<not> in_group d (req_user req) ''Manager''
      else if req_method req = PATCH
      then \<not> in_group d (req_user req) ''Manager''
           \<and> \<not> (in_group d (req_user req) ''Delivery crew''
                \<and> filter (\<lambda>r. ord_id r = pk \<and> ord_delivery_crew r = req_user req) (Order_objects d) \<noteq> [])
      else False)"
| "role_denied CartMenuItems req d = False"
| "role_denied Orders req d = False"
| "role_denied Ratings req d = False"

text \<open>
  A request that reaches the role check of its view: it passes the decorators of
  the view, and the row that the path names exists.
\<close>

fun admitted :: "endpoint \<Rightarrow> request \<Rightarrow> db \<Rightarrow> bool" where
  "admitted Categories req d = (req_user req \<noteq> None \<and> req_method req \<in> set [GET, POST])"
| "admitted (Category pk) req d =
     (req_user req \<noteq> None \<and> length (filter (\<lambda>r. cat_id r = pk) (Category_objects d)) = 1)"
| "admitted MenuItems req d = (req_method req \<in> set [GET, POST])"
| "admitted (MenuItem pk) req d =
     (req_method req \<in> set [GET, PUT, PATCH, DELETE]
      \<and> length (filter (\<lambda>r. mi_id r = pk) (MenuItem_objects d)) = 1)"
| "admitted ManagerUsers req d = (req_user req \<noteq> None \<and> req_method req \<in> set [GET, POST])"
| "admitted (ManagerUser pk) req d = (req_user req \<noteq> None \<and> req_method req = DELETE)"
| "admitted DeliveryCrewUsers req d = (req_user req \<noteq> None \<and> req_method req \<in> set [GET, POST])"
| "admitted (DeliveryCrewUser pk) req d = (req_user req \<noteq> None \<and> req_method req = DELETE)"
| "admitted CartMenuItems req d = (req_user req \<noteq> None \<and> req_method req \<in> set [GET, POST, DELETE])"
| "admitted Orders req d = (req_user req \<noteq> None \<and> req_method req \<in> set [GET, POST])"
| "admitted (Order pk) req d =
     (req_user req \<noteq> None \<and> req_method req \<in> set [GET, PUT, PATCH, DELETE]
      \<and> length (filter (\<lambda>r. ord_id r = pk) (Order_objects d)) = 1)"
| "admitted Ratings req d = (req_method req = GET \<or> req_user req \<noteq> None \<and> req_method req = POST)"

subsection \<open>The Manager's list of orders in the words of the specification\<close>


definition orders_sorted :: "string list \<Rightarrow> order_row list \<Rightarrow> bool" where
  "orders_sorted names rows =
     (case comparisons order_orders names of
        None \<Rightarrow> False
      | Some cs \<Rightarrow> sorted_wrt (lex_le cs) rows)"

subsection \<open>Invariants of the carts\<close>

text \<open>
  The two invariants that the specification states of carts: the price of a cart is
  its quantity times its unit price, and a user has at most one cart. \<open>reachable\<close>
  are the databases that requests to the endpoints lead to.
\<close>

definition cart_price_ok :: "cart_row \<Rightarrow> bool" where
  "cart_price_ok c = (cart_price c = of_int (cart_quantity c) * cart_unit_price c)"

definition carts_priced :: "db \<Rightarrow> bool" where
  "carts_priced d = list_all cart_price_ok (Cart_objects d)"

definition one_cart_per_user :: "db \<Rightarrow> bool" where
  "one_cart_per_user d = distinct (map cart_user (Cart_objects d))"

text \<open>
  How a request changes the table of carts: rows are removed, or one row is added,
  for a user without a cart and with the price of its quantity.
\<close>

definition carts_step :: "cart_row list \<Rightarrow> cart_row list \<Rightarrow> bool" where
  "carts_step cs cs' \<longleftrightarrow>
     (\<exists>P. cs' = filter P cs)
     \<or> (\<exists>row. cs' = cs @ [row] \<and> cart_user row \<notin> set (map cart_user cs) \<and> cart_price_ok row)"

inductive reachable :: "db \<Rightarrow> db \<Rightarrow> bool" for d0 :: db where
  start: "reachable d0 d0"
| request: "reachable d0 d \<Longrightarrow> reachable d0 (snd (handle ep req d))"

subsection \<open>An example database\<close>

text \<open>
  Ann is a Manager, Bob is in the Delivery crew, Cy and Dee are customers. Cy has a
  cart and two orders, both assigned to Bob. The database sorts by insertion.
\<close>

fun insort_by :: "('a \<Rightarrow> 'a \<Rightarrow> bool) \<Rightarrow> 'a \<Rightarrow> 'a list \<Rightarrow> 'a list" where
  "insort_by le x [] = [x]"
| "insort_by le x (y # ys) = (if le x y then x # y # ys else y # insort_by le x ys)"

definition sort_by :: "('a \<Rightarrow> 'a \<Rightarrow> bool) \<Rightarrow> 'a list \<Rightarrow> 'a list" where
  "sort_by le xs = foldr (insort_by le) xs []"

definition lemon_db :: db where
  "lemon_db =
     \<lparr>User_objects =
        [\<lparr>usr_id = 1, usr_username = ''ann'', usr_email = ''ann@littlelemon.test''\<rparr>,
         \<lparr>usr_id = 2, usr_username = ''bob'', usr_email = ''bob@littlelemon.test''\<rparr>,
         \<lparr>usr_id = 3, usr_username = ''cy'', usr_email = ''cy@littlelemon.test''\<rparr>,
         \<lparr>usr_id = 4, usr_username = ''dee'', usr_email = ''dee@littlelemon.test''\<rparr>],
      Group_objects = [''Manager'' \<mapsto> {1}, ''Delivery crew'' \<mapsto> {2}],
      Category_objects = [\<lparr>cat_id = 1, cat_title = ''Main'', cat_slug = ''main''\<rparr>],
      MenuItem_objects =
        [\<lparr>mi_id = 1, mi_title = ''Pasta'', mi_price = 5 / 2, mi_category = 1, mi_featured = False\<rparr>,
         \<lparr>mi_id = 2, mi_title = ''Soup'', mi_price = 4, mi_category = 1, mi_featured = True\<rparr>,
         \<lparr>mi_id = 3, mi_title = ''Cake'', mi_price = 3, mi_category = 1, mi_featured = False\<rparr>],
      Cart_objects =
        [\<lparr>cart_user = 3, cart_menuitem = 1, cart_unit_price = 5 / 2, cart_quantity = 2, cart_price = 5\<rparr>],
      Order_objects =
        [\<lparr>ord_id = 1, ord_user = 3, ord_delivery_crew = Some 2, ord_status = False,
          ord_date = (2024, 1, 5), ord_total = 5\<rparr>,
         \<lparr>ord_id = 2, ord_user = 4, ord_delivery_crew = None, ord_status = False,
          ord_date = (2024, 1, 6), ord_total = 4\<rparr>,
         \<lparr>ord_id = 3, ord_user = 3, ord_delivery_crew = Some 2, ord_status = True,
          ord_date = (2024, 1, 7), ord_total = 3\<rparr>],
      OrderItem_objects = [\<lparr>oi_order = 1, oi_menuitem = 1, oi_quantity = 2, oi_price = 5\<rparr>],
      Rating_objects = [\<lparr>rt_user = 3, rt_menuitem_id = 1, rt_rating = 4\<rparr>],
      MenuItem_order_by = sort_by,
      Order_order_by = sort_by\<rparr>"

definition request_of :: "http_method \<Rightarrow> nat option \<Rightarrow> pydict \<Rightarrow> request" where
  "request_of m u data = \<lparr>req_method = m, req_user = u, req_data = data, req_query = Map.empty\<rparr>"


section \<open>Properties\<close>

subsection \<open>Responses\<close>

lemma resp_status_simps [simp]:
  "resp_status (Response p s) = (case s of None \<Rightarrow> 200 | Some c \<Rightarrow> c)"
  "resp_status (validation_error errs) = 400"
  "resp_status not_found = 404"
  "resp_status (server_error e) = 500"
  "resp_status not_authorized = 403"
  by (simp_all add: Response_def validation_error_def not_found_def server_error_def not_authorized_def)

lemma get_object_or_404_Inl: "get_object_or_404 rows = Inl r \<Longrightarrow> resp_status r = 404 \<or> resp_status r = 500"
  by (auto simp: get_object_or_404_def split: sum.splits if_splits)

lemma get_object_or_404_single [simp]: "get_object_or_404 [x] = Inr x"
  by (simp add: get_object_or_404_def)

lemma category_update_status: "resp_status (fst (category_update p req item d)) \<noteq> 403"
  by (simp add: category_update_def split: validation.splits prod.splits)

lemma menuitem_update_status: "resp_status (fst (menuitem_update p req item d)) \<noteq> 403"
  by (simp add: menuitem_update_def split: validation.splits prod.splits)

lemma order_update_status: "resp_status (fst (order_update p data item d)) \<noteq> 403"
  by (simp add: order_update_def split: validation.splits prod.splits)

lemma category_forbidden: "resp_status (fst (category req d)) = 403 \<Longrightarrow> snd (category req d) = d"
  by (auto simp: category_def split: if_splits validation.splits sum.splits prod.splits)

lemma category_single_forbidden:
  "resp_status (fst (category_single req pk d)) = 403 \<Longrightarrow> snd (category_single req pk d) = d"
  using category_update_status
  by (auto simp: category_single_def split: if_splits sum.splits dest: get_object_or_404_Inl)

lemma menuitems_forbidden: "resp_status (fst (menuitems req d)) = 403 \<Longrightarrow> snd (menuitems req d) = d"
  by (auto simp: menuitems_def split: if_splits validation.splits sum.splits prod.splits)

lemma menuitems_single_forbidden:
  "resp_status (fst (menuitems_single req pk d)) = 403 \<Longrightarrow> snd (menuitems_single req pk d) = d"
  using menuitem_update_status
  by (auto simp: menuitems_single_def split: if_splits sum.splits dest: get_object_or_404_Inl)

lemma group_set_forbidden:
  "resp_status (fst (group_set g r req d)) = 403 \<Longrightarrow> snd (group_set g r req d) = d"
  by (auto simp: group_set_def Let_def split: if_splits option.splits sum.splits pyval.splits dest: get_object_or_404_Inl)

lemma group_delete_forbidden:
  "resp_status (fst (group_delete g r req pk d)) = 403 \<Longrightarrow> snd (group_delete g r req pk d) = d"
  by (auto simp: group_delete_def split: if_splits option.splits sum.splits dest: get_object_or_404_Inl)

lemma cart_forbidden: "resp_status (fst (cart req d)) = 403 \<Longrightarrow> snd (cart req d) = d"
  by (auto simp: cart_def split: if_splits validation.splits sum.splits prod.splits dest: get_object_or_404_Inl)

lemma order_forbidden: "resp_status (fst (order req d)) = 403 \<Longrightarrow> snd (order req d) = d"
  by (auto simp: order_def split: if_splits validation.splits sum.splits prod.splits dest: get_object_or_404_Inl)

lemma order_single_forbidden:
  "resp_status (fst (order_single req pk d)) = 403 \<Longrightarrow> snd (order_single req pk d) = d"
  using order_update_status
  by (auto simp: order_single_def split: if_splits sum.splits option.splits dest: get_object_or_404_Inl)

lemma RatingsView_forbidden: "resp_status (fst (RatingsView req d)) = 403 \<Longrightarrow> snd (RatingsView req d) = d"
  by (auto simp: RatingsView_def split: if_splits validation.splits sum.splits prod.splits)

lemma api_view_forbidden:
  assumes "\<And>req d. resp_status (fst (view req d)) = 403 \<Longrightarrow> snd (view req d) = d"
  shows "resp_status (fst (api_view ms a view req d)) = 403 \<Longrightarrow> snd (api_view ms a view req d) = d"
  using assms by (simp add: api_view_def split: if_splits)

lemma handle_forbidden: "resp_status (fst (handle ep req d)) = 403 \<Longrightarrow> snd (handle ep req d) = d"
proof (cases ep)
  case Categories
  then show "resp_status (fst (handle ep req d)) = 403 \<Longrightarrow> snd (handle ep req d) = d"
    by (simp add: api_view_forbidden category_forbidden)
qed (simp_all add: api_view_forbidden category_single_forbidden menuitems_forbidden menuitems_single_forbidden
   group_set_forbidden group_delete_forbidden cart_forbidden order_forbidden order_single_forbidden
   RatingsView_forbidden manager_set_def delivery_set_def manager_delete_def delivery_delete_def)


lemma length_1_filter: "length xs = Suc 0 \<Longrightarrow> \<exists>x. xs = [x]"
  by (cases xs) auto

lemma role_denied_not_authorized:
  assumes "role_denied ep req d" and "admitted ep req d"
  shows "handle ep req d = (not_authorized, d)"
proof (cases ep)
  case Categories
  with assms show ?thesis by (auto simp: api_view_def category_def)
next
  case (Category pk)
  with assms obtain x where "filter (\<lambda>r. cat_id r = pk) (Category_objects d) = [x]"
    by (auto dest!: length_1_filter)
  with assms Category show ?thesis
    by (cases "req_method req") (auto simp: api_view_def category_single_def)
next
  case MenuItems
  with assms show ?thesis by (auto simp: api_view_def menuitems_def)
next
  case (MenuItem pk)
  with assms obtain x where "filter (\<lambda>r. mi_id r = pk) (MenuItem_objects d) = [x]"
    by (auto dest!: length_1_filter)
  with assms MenuItem show ?thesis
    by (cases "req_method req") (auto simp: api_view_def menuitems_single_def)
next
  case ManagerUsers
  with assms show ?thesis by (auto simp: api_view_def manager_set_def group_set_def)
next
  case (ManagerUser pk)
  with assms show ?thesis by (auto simp: api_view_def manager_delete_def group_delete_def)
next
  case DeliveryCrewUsers
  with assms show ?thesis by (auto simp: api_view_def delivery_set_def group_set_def)
next
  case (DeliveryCrewUser pk)
  with assms show ?thesis by (auto simp: api_view_def delivery_delete_def group_delete_def)
next
  case (Order pk)
  with assms obtain x where x: "filter (\<lambda>r. ord_id r = pk) (Order_objects d) = [x]"
    by (auto dest!: length_1_filter)
  have "ord_delivery_crew x = req_user req \<Longrightarrow>
        filter (\<lambda>r. ord_id r = pk \<and> ord_delivery_crew r = req_user req) (Order_objects d) \<noteq> []"
  proof -
    assume a: "ord_delivery_crew x = req_user req"
    have "x \<in> set (filter (\<lambda>r. ord_id r = pk) (Order_objects d))" using x by simp
    then have "x \<in> set (filter (\<lambda>r. ord_id r = pk \<and> ord_delivery_crew r = req_user req) (Order_objects d))"
      using a by simp
    then show ?thesis by (metis empty_iff list.set(1))
  qed
  with assms Order x show ?thesis
    by (cases "req_method req") (auto simp: api_view_def order_single_def split: if_splits)
qed (use assms in simp_all)

subsection \<open>Role checks\<close>

text \<open>
  C4: a request that a role check denies is answered with Forbidden and changes
  nothing. For every endpoint, a request that the rules of section 4.1 disallow and
  that reaches the view's role check gets the response ``You are not authorized.''
  with status 403 and the database is the one before; whenever any endpoint answers
  403 the database is unchanged; in particular a \<^verbatim>\<open>POST\<close> to the categories by an
  authenticated user who is not a Manager is answered 403 and creates no category.
\<close>

theorem role_check_denial_is_forbidden:
  "(role_denied ep req d \<and> admitted ep req d \<longrightarrow> handle ep req d = (not_authorized, d))
   \<and> resp_status not_authorized = HTTP_403_FORBIDDEN
   \<and> (resp_status (fst (handle ep req d)) = HTTP_403_FORBIDDEN \<longrightarrow> snd (handle ep req d) = d)
   \<and> (req_method req = POST \<and> req_user req = Some u \<and> \<not> in_group d (Some u) ''Manager''
        \<longrightarrow> handle Categories req d = (not_authorized, d)
            \<and> Category_objects (snd (handle Categories req d)) = Category_objects d)"
  using role_denied_not_authorized [of ep req d] handle_forbidden [of ep req d]
    role_denied_not_authorized [of Categories req d]
  by auto

theorem role_check_denial_is_forbidden_witness:
  "role_denied Categories (request_of POST (Some 3) [''title'' \<mapsto> VStr ''Drinks'', ''slug'' \<mapsto> VStr ''drinks'']) lemon_db
   \<and> admitted Categories (request_of POST (Some 3) [''title'' \<mapsto> VStr ''Drinks'', ''slug'' \<mapsto> VStr ''drinks'']) lemon_db
   \<and> handle Categories (request_of POST (Some 3) [''title'' \<mapsto> VStr ''Drinks'', ''slug'' \<mapsto> VStr ''drinks'']) lemon_db
       = (not_authorized, lemon_db)
   \<and> resp_status (fst (handle Categories (request_of POST (Some 3) [''title'' \<mapsto> VStr ''Drinks'', ''slug'' \<mapsto> VStr ''drinks'']) lemon_db)) = HTTP_403_FORBIDDEN
   \<and> role_denied (Order 2) (request_of DELETE (Some 2) Map.empty) lemon_db
   \<and> admitted (Order 2) (request_of DELETE (Some 2) Map.empty) lemon_db
   \<and> handle (Order 2) (request_of DELETE (Some 2) Map.empty) lemon_db = (not_authorized, lemon_db)"
  using role_check_denial_is_forbidden [of Categories "request_of POST (Some 3) [''title'' \<mapsto> VStr ''Drinks'', ''slug'' \<mapsto> VStr ''drinks'']" lemon_db 3]
    role_check_denial_is_forbidden [of "Order 2" "request_of DELETE (Some 2) Map.empty" lemon_db 2]
  by (simp add: request_of_def lemon_db_def in_group_def)

subsection \<open>Reading one order\<close>

text \<open>
  C10: for an existing order and an authenticated requester, \<^verbatim>\<open>GET\<close> on the order
  answers Forbidden whenever the order's user is not the requester, whatever groups
  the requester is in (a Manager, the assigned Delivery crew member), and answers
  200 with the serialized order only for the owner of the order.
\<close>

theorem order_single_get_owner_only:
  assumes "filter (\<lambda>r. ord_id r = pk) (Order_objects d) = [inst]"
    and "req_method req = GET"
    and "req_user req = Some u"
  shows "(ord_user inst \<noteq> u \<longrightarrow>
            handle (Order pk) req d = (not_authorized, d)
            \<and> resp_status (fst (handle (Order pk) req d)) = HTTP_403_FORBIDDEN)
       \<and> (ord_user inst = u \<longrightarrow>
            handle (Order pk) req d
              = (Response (POrder (OrderSerializer_data d inst)) (Some HTTP_200_OK), d))
       \<and> (resp_status (fst (handle (Order pk) req d)) = HTTP_200_OK \<longrightarrow> ord_user inst = u)"
  using assms by (auto simp: api_view_def order_single_def)

theorem order_single_get_owner_only_witness:
  "handle (Order 1) (request_of GET (Some 1) Map.empty) lemon_db = (not_authorized, lemon_db)
   \<and> in_group lemon_db (Some 1) ''Manager''
   \<and> handle (Order 1) (request_of GET (Some 2) Map.empty) lemon_db = (not_authorized, lemon_db)
   \<and> ord_delivery_crew (hd (Order_objects lemon_db)) = Some 2
   \<and> handle (Order 1) (request_of GET (Some 3) Map.empty) lemon_db
       = (Response (POrder (hd (Order_objects lemon_db), OrderItem_objects lemon_db)) (Some HTTP_200_OK), lemon_db)"
  using order_single_get_owner_only [of 1 lemon_db "hd (Order_objects lemon_db)" "request_of GET (Some 1) Map.empty" 1]
    order_single_get_owner_only [of 1 lemon_db "hd (Order_objects lemon_db)" "request_of GET (Some 2) Map.empty" 2]
    order_single_get_owner_only [of 1 lemon_db "hd (Order_objects lemon_db)" "request_of GET (Some 3) Map.empty" 3]
  by (simp add: request_of_def lemon_db_def in_group_def OrderSerializer_data_def)


subsection \<open>The Delivery crew's update of an order\<close>

lemma filter_single_eq:
  assumes "filter P xs = [x]" and "r \<in> set xs" and "P r"
  shows "r = x"
proof -
  have "r \<in> set (filter P xs)" using assms(2,3) by simp
  then show ?thesis by (simp add: assms(1))
qed

lemma filter_single_holds:
  assumes "filter P xs = [x]"
  shows "P x"
proof -
  have "x \<in> set (filter P xs)" by (simp add: assms)
  then show ?thesis by simp
qed

lemma status_update_map:
  assumes "filter (\<lambda>r. ord_id r = pk) xs = [inst]"
  shows "map (\<lambda>r. if ord_id r = ord_id inst then inst\<lparr>ord_status := s\<rparr> else r) xs
       = map (\<lambda>r. if ord_id r = pk then r\<lparr>ord_status := s\<rparr> else r) xs"
proof -
  have pk: "ord_id inst = pk" using filter_single_holds [OF assms] .
  have "\<And>r. r \<in> set xs \<Longrightarrow> ord_id r = pk \<Longrightarrow> r = inst"
    using filter_single_eq [OF assms] by blast
  then show ?thesis using pk by (auto intro!: map_cong)
qed

lemma status_same_map:
  assumes "filter (\<lambda>r. ord_id r = pk) xs = [inst]"
  shows "map (\<lambda>r. if ord_id r = pk then r\<lparr>ord_status := ord_status inst\<rparr> else r) xs = xs"
proof -
  have "\<And>r. r \<in> set xs \<Longrightarrow> ord_id r = pk \<Longrightarrow> r = inst"
    using filter_single_eq [OF assms] by blast
  then have "map (\<lambda>r. if ord_id r = pk then r\<lparr>ord_status := ord_status inst\<rparr> else r) xs = map (\<lambda>r. r) xs"
    by (intro map_cong) auto
  then show ?thesis by simp
qed

lemma status_patch_valid:
  "OrderSerializer_is_valid True d [''status'' \<mapsto> v] =
     (case BooleanField v of
        None \<Rightarrow> Errors [''status'']
      | Some s \<Rightarrow> Validated \<lparr>at_ord_user = None, at_ord_delivery_crew = None, at_ord_status = Some s,
                            at_ord_date = None, at_ord_total = None\<rparr>)"
  by (cases v) (simp_all add: OrderSerializer_is_valid_def run_field_def run_nullable_field_def
      field_error_def field_value_def BooleanField_def split: option.splits)

lemma status_patch:
  assumes "filter (\<lambda>r. ord_id r = pk) (Order_objects d) = [inst]"
  shows "snd (order_update True [''status'' \<mapsto> v] inst d) =
     (case BooleanField v of
        None \<Rightarrow> d
      | Some s \<Rightarrow> d\<lparr>Order_objects := map (\<lambda>r. if ord_id r = pk then r\<lparr>ord_status := s\<rparr> else r) (Order_objects d)\<rparr>)"
  by (simp add: order_update_def status_patch_valid OrderSerializer_update_def Let_def
      status_update_map [OF assms] split: option.splits)

text \<open>
  C2: for an existing order and a requester in the Delivery crew group, \<^verbatim>\<open>PATCH\<close> on
  the order answers Forbidden, and changes nothing, when the order's delivery crew
  is not the requester. When the order is assigned to the requester, the database
  after the request is the database before it with the status of that order set to
  some value: every other field of the order, every other order and every other
  table is unchanged. A status in the payload that the field accepts is the value
  that is set, and the answer is 205.
\<close>

theorem delivery_crew_patch_only_status:
  assumes "filter (\<lambda>r. ord_id r = pk) (Order_objects d) = [inst]"
    and "req_method req = PATCH"
    and "req_user req = Some u"
    and "in_group d (Some u) ''Delivery crew''"
  shows "(ord_delivery_crew inst \<noteq> Some u \<longrightarrow>
            handle (Order pk) req d = (not_authorized, d)
            \<and> resp_status (fst (handle (Order pk) req d)) = HTTP_403_FORBIDDEN)
       \<and> (ord_delivery_crew inst = Some u \<longrightarrow>
            (\<exists>s. snd (handle (Order pk) req d)
                  = d\<lparr>Order_objects :=
                        map (\<lambda>r. if ord_id r = pk then r\<lparr>ord_status := s\<rparr> else r) (Order_objects d)\<rparr>))
       \<and> (ord_delivery_crew inst = Some u \<and> req_data req ''status'' = Some v \<and> BooleanField v = Some s \<longrightarrow>
            snd (handle (Order pk) req d)
              = d\<lparr>Order_objects :=
                    map (\<lambda>r. if ord_id r = pk then r\<lparr>ord_status := s\<rparr> else r) (Order_objects d)\<rparr>
            \<and> resp_status (fst (handle (Order pk) req d)) = HTTP_205_RESET_CONTENT)"
proof (intro conjI impI)
  assume "ord_delivery_crew inst \<noteq> Some u"
  with assms show "handle (Order pk) req d = (not_authorized, d)"
    by (simp add: api_view_def order_single_def)
  then show "resp_status (fst (handle (Order pk) req d)) = HTTP_403_FORBIDDEN" by simp
next
  assume crew: "ord_delivery_crew inst = Some u"
  show "\<exists>s. snd (handle (Order pk) req d)
              = d\<lparr>Order_objects :=
                    map (\<lambda>r. if ord_id r = pk then r\<lparr>ord_status := s\<rparr> else r) (Order_objects d)\<rparr>"
  proof (cases "req_data req ''status''")
    case None
    with assms crew have "snd (handle (Order pk) req d) = d"
      by (simp add: api_view_def order_single_def)
    then show ?thesis using status_same_map [OF assms(1)] by (intro exI [of _ "ord_status inst"]) simp
  next
    case (Some v')
    with assms crew have h: "snd (handle (Order pk) req d) = snd (order_update True [''status'' \<mapsto> v'] inst d)"
      by (simp add: api_view_def order_single_def)
    show ?thesis
    proof (cases "BooleanField v'")
      case None
      then have "snd (handle (Order pk) req d) = d" using h status_patch [OF assms(1)] by simp
      then show ?thesis using status_same_map [OF assms(1)] by (intro exI [of _ "ord_status inst"]) simp
    next
      case (Some s')
      then show ?thesis using h status_patch [OF assms(1)] by (intro exI [of _ s']) simp
    qed
  qed
next
  assume a: "ord_delivery_crew inst = Some u \<and> req_data req ''status'' = Some v \<and> BooleanField v = Some s"
  with assms have h: "handle (Order pk) req d = order_update True [''status'' \<mapsto> v] inst d"
    by (simp add: api_view_def order_single_def)
  show "snd (handle (Order pk) req d)
          = d\<lparr>Order_objects :=
                map (\<lambda>r. if ord_id r = pk then r\<lparr>ord_status := s\<rparr> else r) (Order_objects d)\<rparr>"
    using a h status_patch [OF assms(1)] by simp
  show "resp_status (fst (handle (Order pk) req d)) = HTTP_205_RESET_CONTENT"
    using a h by (simp add: order_update_def status_patch_valid split: prod.splits)
qed

theorem delivery_crew_patch_only_status_witness:
  "handle (Order 2) (request_of PATCH (Some 2) [''status'' \<mapsto> VInt 1, ''total'' \<mapsto> VInt 0]) lemon_db
     = (not_authorized, lemon_db)
   \<and> snd (handle (Order 1) (request_of PATCH (Some 2) [''status'' \<mapsto> VInt 1, ''total'' \<mapsto> VInt 0]) lemon_db)
     = lemon_db\<lparr>Order_objects :=
         [\<lparr>ord_id = 1, ord_user = 3, ord_delivery_crew = Some 2, ord_status = True,
           ord_date = (2024, 1, 5), ord_total = 5\<rparr>,
          \<lparr>ord_id = 2, ord_user = 4, ord_delivery_crew = None, ord_status = False,
           ord_date = (2024, 1, 6), ord_total = 4\<rparr>,
          \<lparr>ord_id = 3, ord_user = 3, ord_delivery_crew = Some 2, ord_status = True,
           ord_date = (2024, 1, 7), ord_total = 3\<rparr>]\<rparr>"
  using delivery_crew_patch_only_status [of 2 lemon_db "hd (tl (Order_objects lemon_db))"
      "request_of PATCH (Some 2) [''status'' \<mapsto> VInt 1, ''total'' \<mapsto> VInt 0]" 2 "VInt 1" True]
    delivery_crew_patch_only_status [of 1 lemon_db "hd (Order_objects lemon_db)"
      "request_of PATCH (Some 2) [''status'' \<mapsto> VInt 1, ''total'' \<mapsto> VInt 0]" 2 "VInt 1" True]
  by (simp add: request_of_def lemon_db_def in_group_def BooleanField_def)

subsection \<open>Creating an order, deleting rows\<close>

text \<open>
  The dictionary that \<^verbatim>\<open>order\<close> builds from the cart has none of the keys \<open>order\<close>
  and \<open>menuitem\<close> that the serializer of order items requires (it has \<open>user_id\<close> and
  \<open>menuitem_id\<close>), so its validation fails for every cart, with these two fields in
  error, and with them only when the quantity is in the range of its column.
\<close>

lemma orderitem_data_invalid:
  "OrderItemSerializer_is_valid d (orderitem_data c)
     = Errors ([''order'', ''menuitem'']
         @ (if column_min \<le> cart_quantity c \<and> cart_quantity c \<le> column_max then []
            else [''quantity'']))"
  by (simp add: OrderItemSerializer_is_valid_def orderitem_data_def run_field_def field_error_def
      column_IntegerField_def IntegerField_def DecimalField_def)

lemma order_post_refused:
  assumes "req_method req = POST"
    and "req_user req = Some u"
    and "filter (\<lambda>c. cart_user c = u) (Cart_objects d) = [c]"
  shows "\<exists>errs. handle Orders req d = (validation_error errs, d)
           \<and> ''order'' \<in> set errs \<and> ''menuitem'' \<in> set errs"
proof (cases "column_min \<le> cart_quantity c \<and> cart_quantity c \<le> column_max")
  case True
  with assms have "handle Orders req d = (validation_error [''order'', ''menuitem''], d)"
    by (simp add: api_view_def order_def orderitem_data_invalid)
  then show ?thesis by (intro exI [of _ "[''order'', ''menuitem'']"]) simp
next
  case False
  with assms have "handle Orders req d = (validation_error [''order'', ''menuitem'', ''quantity''], d)"
    by (auto simp: api_view_def order_def orderitem_data_invalid)
  then show ?thesis by (intro exI [of _ "[''order'', ''menuitem'', ''quantity'']"]) simp
qed

lemma order_post_with_cart:
  assumes "req_method req = POST"
    and "req_user req = Some u"
    and "filter (\<lambda>c. cart_user c = u) (Cart_objects d) = [c]"
    and "column_min \<le> cart_quantity c" and "cart_quantity c \<le> column_max"
  shows "handle Orders req d = (validation_error [''order'', ''menuitem''], d)"
  using assms by (simp add: api_view_def order_def orderitem_data_invalid)

lemma order_post_without_cart:
  assumes "req_method req = POST"
    and "req_user req = Some u"
    and "filter (\<lambda>c. cart_user c = u) (Cart_objects d) = []"
  shows "handle Orders req d = (not_found, d)"
  using assms by (simp add: api_view_def order_def get_object_or_404_def)

lemma menuitem_delete_response:
  assumes "filter (\<lambda>r. mi_id r = pk) (MenuItem_objects d) = [item]"
    and "req_method req = DELETE"
    and "in_group d (req_user req) ''Manager''"
  shows "handle (MenuItem pk) req d = (Response (PInt 204) None, MenuItem_delete d pk)"
  using assms filter_single_holds [OF assms(1)] by (simp add: api_view_def menuitems_single_def)

lemma cart_delete_response:
  assumes "filter (\<lambda>c. cart_user c = u) (Cart_objects d) = [c]"
    and "req_method req = DELETE"
    and "req_user req = Some u"
  shows "handle CartMenuItems req d = (Response (PInt 204) None, Cart_delete d u)"
  using assms filter_single_holds [OF assms(1)] by (simp add: api_view_def cart_def)

lemma order_delete_response:
  assumes "filter (\<lambda>r. ord_id r = pk) (Order_objects d) = [inst]"
    and "req_method req = DELETE"
    and "req_user req = Some u"
    and "in_group d (Some u) ''Manager''"
  shows "handle (Order pk) req d = (Response (PInt 204) None, Order_delete d pk)"
  using assms filter_single_holds [OF assms(1)] by (simp add: api_view_def order_single_def)

text \<open>
  C1: a \<^verbatim>\<open>POST\<close> to the orders by a user who has a cart is to create an order item
  and an order from the cart and to delete the cart; without a cart it is to fail
  with Not Found. Evaluated on the example database: for Cy, who has a cart, the
  view answers 400 with the fields \<open>order\<close> and \<open>menuitem\<close> in error, the cart is
  still there and no order and no order item is created; for Dee, who has no cart,
  it answers 404.
\<close>

theorem order_post_keeps_cart:
  "handle Orders (request_of POST (Some 3) Map.empty) lemon_db
     = (validation_error [''order'', ''menuitem''], lemon_db)
   \<and> resp_status (fst (handle Orders (request_of POST (Some 3) Map.empty) lemon_db)) = HTTP_400_BAD_REQUEST
   \<and> Cart_objects (snd (handle Orders (request_of POST (Some 3) Map.empty) lemon_db))
     = [\<lparr>cart_user = 3, cart_menuitem = 1, cart_unit_price = 5 / 2, cart_quantity = 2, cart_price = 5\<rparr>]
   \<and> Order_objects (snd (handle Orders (request_of POST (Some 3) Map.empty) lemon_db))
     = Order_objects lemon_db
   \<and> OrderItem_objects (snd (handle Orders (request_of POST (Some 3) Map.empty) lemon_db))
     = OrderItem_objects lemon_db
   \<and> handle Orders (request_of POST (Some 4) Map.empty) lemon_db = (not_found, lemon_db)"
proof -
  have a: "handle Orders (request_of POST (Some 3) Map.empty) lemon_db
     = (validation_error [''order'', ''menuitem''], lemon_db)"
    by (rule order_post_with_cart [where u = 3
          and c = "\<lparr>cart_user = 3, cart_menuitem = 1, cart_unit_price = 5 / 2, cart_quantity = 2,
                     cart_price = 5\<rparr>"])
      (simp_all add: request_of_def lemon_db_def column_min_def column_max_def)
  have b: "handle Orders (request_of POST (Some 4) Map.empty) lemon_db = (not_found, lemon_db)"
    by (rule order_post_without_cart [where u = 4]) (simp_all add: request_of_def lemon_db_def)
  show ?thesis unfolding a b by (simp add: lemon_db_def)
qed

text \<open>
  C5: a successful \<^verbatim>\<open>DELETE\<close> is to return the status No Content. Evaluated on the
  example database: the deletion of a menu item by the Manager, of Cy's cart by Cy
  and of an order by the Manager all delete the row and answer with status 200 and
  the number 204 as the payload (\<^verbatim>\<open>Response(status.HTTP_204_NO_CONTENT)\<close> gives the
  number to the parameter \<open>data\<close>); the deletion of a category, which passes a
  payload and the status, answers 204.
\<close>

theorem delete_answers_200:
  "resp_status (fst (handle (MenuItem 3) (request_of DELETE (Some 1) Map.empty) lemon_db)) = HTTP_200_OK
   \<and> resp_data (fst (handle (MenuItem 3) (request_of DELETE (Some 1) Map.empty) lemon_db)) = PInt 204
   \<and> map mi_id (MenuItem_objects (snd (handle (MenuItem 3) (request_of DELETE (Some 1) Map.empty) lemon_db))) = [1, 2]
   \<and> resp_status (fst (handle CartMenuItems (request_of DELETE (Some 3) Map.empty) lemon_db)) = HTTP_200_OK
   \<and> resp_data (fst (handle CartMenuItems (request_of DELETE (Some 3) Map.empty) lemon_db)) = PInt 204
   \<and> Cart_objects (snd (handle CartMenuItems (request_of DELETE (Some 3) Map.empty) lemon_db)) = []
   \<and> resp_status (fst (handle (Order 2) (request_of DELETE (Some 1) Map.empty) lemon_db)) = HTTP_200_OK
   \<and> resp_data (fst (handle (Order 2) (request_of DELETE (Some 1) Map.empty) lemon_db)) = PInt 204
   \<and> map ord_id (Order_objects (snd (handle (Order 2) (request_of DELETE (Some 1) Map.empty) lemon_db))) = [1, 3]
   \<and> resp_status (fst (handle (Category 1) (request_of DELETE (Some 1) Map.empty) lemon_db)) = HTTP_204_NO_CONTENT"
  by (simp add: request_of_def lemon_db_def api_view_def menuitems_single_def cart_def order_single_def
      category_single_def in_group_def MenuItem_delete_def Cart_delete_def Order_delete_def
      Response_def)

subsection \<open>Pages and lists\<close>






lemma paginate_below_first:
  assumes "query_int q ''perpage'' 2 = Some n" and "query_int q ''page'' 1 = Some p" and "p < 1"
  shows "paginate q xs = Inr []"
  using assms by (simp add: paginate_def Paginator_page_def)


text \<open>
  The comparison of an \<^verbatim>\<open>order_by\<close> is a total preorder on the rows, for every list
  of columns; a database whose \<^verbatim>\<open>ORDER BY\<close> sorts returns the rows it was given,
  each as often as it was given, in an order that the comparison allows. The
  sorting of the example database is one such.
\<close>

lemma field_le_total_preorder: "total_preorder (field_le key descending)"
  unfolding total_preorder_def field_le_def by auto





lemma if_Some_cases:
  "(if b then Some (field_le key descending) else e) = Some c \<Longrightarrow>
     total_preorder c \<or> (\<not> b \<and> e = Some c)"
  by (auto split: if_splits simp: field_le_total_preorder)


lemma order_menuitems_total_preorder: "order_menuitems f = Some c \<Longrightarrow> total_preorder c"
  unfolding order_menuitems_def
  apply (cases "order_dir f")
  apply (simp only: prod.case Let_def)
  apply (drule if_Some_cases, erule disjE, assumption, erule conjE)+
  apply simp
  done











text \<open>
  What \<open>orders_sorted\<close> says for some lists of fields: by \<open>total\<close> the totals go up,
  by \<open>-total\<close> they go down, and by \<open>status,-total\<close> the orders that are not
  delivered come first and, among orders of one status, the totals go down.
\<close>

lemma lex_le_one: "lex_le [c] = c"
  by (simp add: fun_eq_iff)

lemma orders_sorted_examples:
  "orders_sorted [''total''] rows = sorted (map ord_total rows)"
  "orders_sorted [''-total''] rows = sorted (rev (map ord_total rows))"
  "orders_sorted [''status'', ''-total''] rows
     = sorted_wrt (\<lambda>a b. ord_status a < ord_status b
                         \<or> ord_status a = ord_status b \<and> ord_total b \<le> ord_total a) rows"
proof -
  have f: "field_le ord_total False = (\<lambda>a b. ord_total a \<le> ord_total b)"
    "field_le ord_total True = (\<lambda>a b. ord_total b \<le> ord_total a)"
    "field_le ord_status False = (\<lambda>a b. ord_status a \<le> ord_status b)"
    by (simp_all add: field_le_def fun_eq_iff)
  have o: "order_orders ''total'' = Some (field_le ord_total False)"
    "order_orders ''-total'' = Some (field_le ord_total True)"
    "order_orders ''status'' = Some (field_le ord_status False)"
    by (simp_all add: order_orders_def order_dir_def)
  show "orders_sorted [''total''] rows = sorted (map ord_total rows)"
    by (simp add: orders_sorted_def o lex_le_one f sorted_map)
  show "orders_sorted [''-total''] rows = sorted (rev (map ord_total rows))"
    by (simp add: orders_sorted_def o lex_le_one f sorted_map sorted_wrt_rev sorted_wrt_map
        flip: rev_map)
  have e: "lex_le [field_le ord_status False, field_le ord_total True]
       = (\<lambda>a b. ord_status a < ord_status b
                         \<or> ord_status a = ord_status b \<and> ord_total b \<le> ord_total a)"
    by (auto simp: fun_eq_iff field_le_def)
  show "orders_sorted [''status'', ''-total''] rows
     = sorted_wrt (\<lambda>a b. ord_status a < ord_status b
                         \<or> ord_status a = ord_status b \<and> ord_total b \<le> ord_total a) rows"
    by (simp only: orders_sorted_def comparisons.simps o option.case e)
qed









lemma customer_order_list:
  assumes "req_method req = GET" and "req_user req = Some u"
    and "\<not> in_group d (Some u) ''Manager''" and "\<not> in_group d (Some u) ''Delivery crew''"
  shows "handle Orders req d
       = (if filter (\<lambda>x. ord_user x = u) (Order_objects d) \<noteq> [] then (server_error AttributeError, d)
          else (Response (PInt 404) None, d))"
  using assms by (simp add: api_view_def order_def)





subsection \<open>Carts\<close>

text \<open>
  Every view leaves the table of carts as it is, removes rows from it, or adds one
  row that the serializer of carts has validated and saved.
\<close>

lemma CartSerializer_is_valid_price:
  "CartSerializer_is_valid context d data = Validated a \<Longrightarrow>
     at_cart_price a = Some (of_int (at_cart_quantity a) * at_cart_unit_price a)"
  by (auto simp: CartSerializer_is_valid_def CartSerializer_validate_def Let_def
      split: sum.splits field_result.splits)

lemma CartSerializer_save_row:
  assumes "CartSerializer_save d a = Inr (row, d')"
  shows "Cart_objects d' = Cart_objects d @ [row]"
    and "cart_user row \<notin> set (map cart_user (Cart_objects d))"
    and "at_cart_price a = Some (cart_price row)"
    and "cart_quantity row = at_cart_quantity a"
    and "cart_unit_price row = at_cart_unit_price a"
    and "cart_menuitem row = at_cart_menuitem a"
proof -
  from assms obtain u p where u: "at_cart_user a = Some u" and p: "at_cart_price a = Some p"
    and e: "filter (\<lambda>c. cart_user c = u) (Cart_objects d) = []"
    and row: "row = \<lparr>cart_user = u, cart_menuitem = at_cart_menuitem a,
                     cart_unit_price = at_cart_unit_price a,
                     cart_quantity = at_cart_quantity a, cart_price = p\<rparr>"
    and d': "d' = d\<lparr>Cart_objects := Cart_objects d @ [row]\<rparr>"
    by (auto simp: CartSerializer_save_def Let_def split: option.splits if_splits)
  show "Cart_objects d' = Cart_objects d @ [row]" using d' by simp
  show "cart_user row \<notin> set (map cart_user (Cart_objects d))"
    using e row by (auto simp: filter_empty_conv)
  show "at_cart_price a = Some (cart_price row)" using p row by simp
  show "cart_quantity row = at_cart_quantity a" "cart_unit_price row = at_cart_unit_price a"
    "cart_menuitem row = at_cart_menuitem a"
    using row by simp_all
qed

lemma saved_cart_priced:
  assumes "CartSerializer_is_valid context d data = Validated a"
    and "CartSerializer_save d a = Inr (row, d')"
  shows "cart_price_ok row"
  using CartSerializer_is_valid_price [OF assms(1)] CartSerializer_save_row(3,4,5) [OF assms(2)]
  by (simp add: cart_price_ok_def)

lemma carts_step_refl [simp]: "carts_step cs cs"
  unfolding carts_step_def by (intro disjI1 exI [of _ "\<lambda>_. True"]) simp

lemma carts_step_filter [simp]: "carts_step cs (filter P cs)"
  unfolding carts_step_def by blast

lemma category_carts [simp]: "Cart_objects (snd (category req d)) = Cart_objects d"
  by (auto simp: category_def CategorySerializer_create_def Let_def
      split: validation.splits sum.splits prod.splits option.splits)

lemma category_update_carts [simp]: "Cart_objects (snd (category_update p req item d)) = Cart_objects d"
  by (auto simp: category_update_def CategorySerializer_update_def Let_def split: validation.splits)

lemma menuitem_update_carts [simp]: "Cart_objects (snd (menuitem_update p req item d)) = Cart_objects d"
  by (auto simp: menuitem_update_def MenuItemSerializer_update_def Let_def split: validation.splits)

lemma order_update_carts [simp]: "Cart_objects (snd (order_update p data item d)) = Cart_objects d"
  by (auto simp: order_update_def OrderSerializer_update_def Let_def split: validation.splits)

lemma fold_MenuItem_delete_carts:
  "\<exists>P. Cart_objects (fold (\<lambda>i acc. MenuItem_delete acc (mi_id i)) items d) = filter P (Cart_objects d)"
proof (induction items arbitrary: d)
  case Nil
  show ?case by (intro exI [of _ "\<lambda>_. True"]) simp
next
  case (Cons i items)
  from Cons.IH [of "MenuItem_delete d (mi_id i)"] obtain P where
    "Cart_objects (fold (\<lambda>i acc. MenuItem_delete acc (mi_id i)) items (MenuItem_delete d (mi_id i)))
      = filter P (Cart_objects (MenuItem_delete d (mi_id i)))" by blast
  then show ?case by (auto simp: MenuItem_delete_def)
qed

lemma Category_delete_carts: "carts_step (Cart_objects d) (Cart_objects (Category_delete d k))"
  using fold_MenuItem_delete_carts [of "filter (\<lambda>i. mi_category i = k) (MenuItem_objects d)" d]
  by (auto simp: Category_delete_def Let_def carts_step_def)

lemma category_single_carts: "carts_step (Cart_objects d) (Cart_objects (snd (category_single req pk d)))"
  by (simp add: category_single_def Category_delete_carts split: sum.splits)

lemma menuitems_carts [simp]: "Cart_objects (snd (menuitems req d)) = Cart_objects d"
  by (auto simp: menuitems_def MenuItemSerializer_create_def Let_def
      split: validation.splits sum.splits prod.splits option.splits)

lemma menuitems_single_carts: "carts_step (Cart_objects d) (Cart_objects (snd (menuitems_single req pk d)))"
  by (simp add: menuitems_single_def MenuItem_delete_def split: sum.splits)

lemma group_set_carts [simp]: "Cart_objects (snd (group_set g r req d)) = Cart_objects d"
  by (simp add: group_set_def Let_def split: option.splits sum.splits pyval.splits)

lemma group_delete_carts [simp]: "Cart_objects (snd (group_delete g r req pk d)) = Cart_objects d"
  by (simp add: group_delete_def split: option.splits sum.splits)

lemma cart_carts: "carts_step (Cart_objects d) (Cart_objects (snd (cart req d)))"
proof -
  have "carts_step (Cart_objects d) (Cart_objects d')"
    if "CartSerializer_is_valid None d data = Validated a" and "CartSerializer_save d a = Inr (row, d')"
    for data a row d'
    using saved_cart_priced [OF that] CartSerializer_save_row(1,2) [OF that(2)]
    unfolding carts_step_def by blast
  then show ?thesis
    by (auto simp: cart_def Cart_delete_def split: sum.splits validation.splits)
qed

lemma order_carts [simp]: "Cart_objects (snd (order req d)) = Cart_objects d"
  by (simp add: order_def OrderItemSerializer_save_def split: sum.splits validation.splits)

lemma order_single_carts [simp]: "Cart_objects (snd (order_single req pk d)) = Cart_objects d"
  by (simp add: order_single_def Order_delete_def split: sum.splits option.splits)

lemma RatingsView_carts [simp]: "Cart_objects (snd (RatingsView req d)) = Cart_objects d"
  by (auto simp: RatingsView_def RatingSerializer_save_def Let_def
      split: validation.splits sum.splits option.splits)

lemma api_view_carts:
  assumes "\<And>req d. carts_step (Cart_objects d) (Cart_objects (snd (view req d)))"
  shows "carts_step (Cart_objects d) (Cart_objects (snd (api_view ms a view req d)))"
  using assms by (simp add: api_view_def)

lemma handle_carts: "carts_step (Cart_objects d) (Cart_objects (snd (handle ep req d)))"
  by (cases ep)
    (simp_all add: api_view_carts category_single_carts menuitems_single_carts cart_carts
      manager_set_def delivery_set_def manager_delete_def delivery_delete_def)

lemma carts_step_priced: "carts_step cs cs' \<Longrightarrow> list_all cart_price_ok cs \<Longrightarrow> list_all cart_price_ok cs'"
  by (auto simp: carts_step_def list_all_iff)

lemma carts_step_distinct:
  "carts_step cs cs' \<Longrightarrow> distinct (map cart_user cs) \<Longrightarrow> distinct (map cart_user cs')"
  by (auto simp: carts_step_def distinct_map_filter)


lemma handle_carts_priced: "carts_priced d \<Longrightarrow> carts_priced (snd (handle ep req d))"
  unfolding carts_priced_def using handle_carts carts_step_priced by blast

lemma handle_one_cart: "one_cart_per_user d \<Longrightarrow> one_cart_per_user (snd (handle ep req d))"
  unfolding one_cart_per_user_def using handle_carts carts_step_distinct by blast

lemma reachable_carts_priced: "reachable d0 d \<Longrightarrow> carts_priced d0 \<Longrightarrow> carts_priced d"
  by (induction rule: reachable.induct) (auto intro: handle_carts_priced)

lemma reachable_one_cart: "reachable d0 d \<Longrightarrow> one_cart_per_user d0 \<Longrightarrow> one_cart_per_user d"
  by (induction rule: reachable.induct) (auto intro: handle_one_cart)

lemma cart_data_Inr:
  assumes "cart_data req d = Inr data"
  shows "\<exists>m quantity item q.
           req_data req ''menuitem'' = Some m \<and> req_data req ''quantity'' = Some quantity
           \<and> get_by_pk mi_id (MenuItem_objects d) m = Inr item \<and> py_Decimal quantity = Inr q
           \<and> data ''unit_price'' = Some (VDec (mi_price item))
           \<and> data ''price'' = Some (VDec (q * mi_price item))
           \<and> data ''quantity'' = Some quantity"
  using assms by (auto simp: cart_data_def Let_def split: option.splits sum.splits)

text \<open>
  C8: a \<^verbatim>\<open>POST\<close> to the cart by an authenticated user who has a cart is answered
  with Bad Request and changes nothing, so that no second cart is created; and a
  user has at most one cart: the \<^verbatim>\<open>POST\<close> keeps that invariant whatever its
  outcome, and so does every sequence of requests to the endpoints.
\<close>

theorem second_cart_refused:
  assumes "req_method req = POST" and "req_user req = Some u"
  shows "(filter (\<lambda>c. cart_user c = u) (Cart_objects d) \<noteq> [] \<longrightarrow>
            handle CartMenuItems req d
              = (Response (PMessage ''The user has already a cart.'') (Some HTTP_400_BAD_REQUEST), d))
       \<and> (one_cart_per_user d \<longrightarrow> one_cart_per_user (snd (handle CartMenuItems req d)))
       \<and> (one_cart_per_user d \<and> reachable d d' \<longrightarrow> one_cart_per_user d')"
  using assms handle_one_cart [of d CartMenuItems req] reachable_one_cart [of d d']
  by (auto simp: api_view_def cart_def)

theorem second_cart_refused_witness:
  "handle CartMenuItems (request_of POST (Some 3) [''menuitem'' \<mapsto> VInt 2, ''quantity'' \<mapsto> VInt 1]) lemon_db
     = (Response (PMessage ''The user has already a cart.'') (Some HTTP_400_BAD_REQUEST), lemon_db)
   \<and> one_cart_per_user lemon_db
   \<and> one_cart_per_user
       (snd (handle CartMenuItems (request_of POST (Some 3) [''menuitem'' \<mapsto> VInt 2, ''quantity'' \<mapsto> VInt 1]) lemon_db))"
proof -
  have c: "filter (\<lambda>c. cart_user c = 3) (Cart_objects lemon_db) \<noteq> []" by (simp add: lemon_db_def)
  have o: "one_cart_per_user lemon_db" by (simp add: one_cart_per_user_def lemon_db_def)
  show ?thesis
    using second_cart_refused [of "request_of POST (Some 3) [''menuitem'' \<mapsto> VInt 2, ''quantity'' \<mapsto> VInt 1]"
        3 lemon_db lemon_db] c o
    by (simp add: request_of_def)
qed

text \<open>
  A \<^verbatim>\<open>POST\<close> to the cart changes nothing and never answers 201: the dictionary
  that the view builds has no key \<open>user\<close>, and the serializer, built without a
  context, raises \<^verbatim>\<open>KeyError\<close> when it reads the default of that field.
\<close>

lemma cart_data_no_user: "cart_data req d = Inr data \<Longrightarrow> data ''user'' = None"
  by (auto simp: cart_data_def Let_def split: option.splits sum.splits)

lemma cart_post_saves_nothing:
  assumes "req_method req = POST"
  shows "snd (cart req d) = d" and "resp_status (fst (cart req d)) \<noteq> HTTP_201_CREATED"
proof -
  have r: "CartSerializer_is_valid None d data = Raised (KeyError ''request'')"
    if "cart_data req d = Inr data" for data
    using cart_data_no_user [OF that] by (simp add: CartSerializer_is_valid_def user_field_def)
  show "snd (cart req d) = d"
    using assms r by (simp add: cart_def split: sum.splits)
  show "resp_status (fst (cart req d)) \<noteq> HTTP_201_CREATED"
    using assms r by (simp add: cart_def split: sum.splits)
qed

text \<open>
  C7: the price of a cart is its quantity times its unit price, and the \<^verbatim>\<open>POST\<close> to
  the cart and the serializer of carts keep this, with the unit price that of the
  menu item. Evaluated on the example database: Dee, who has no cart, posts menu
  item 2 with the quantity 3; the view answers with the exception \<^verbatim>\<open>KeyError\<close> for
  \<open>request\<close>, status 500, and the table of carts is as it was, without a cart for
  Dee. And the serializer, given a request, validates a unit price of 999 for menu
  item 2, whose price is 4, with the price 2997.
\<close>

theorem cart_post_saves_no_cart:
  "filter (\<lambda>c. cart_user c = 4) (Cart_objects lemon_db) = []
   \<and> handle CartMenuItems (request_of POST (Some 4) [''menuitem'' \<mapsto> VInt 2, ''quantity'' \<mapsto> VInt 3]) lemon_db
       = (server_error (KeyError ''request''), lemon_db)
   \<and> resp_status (fst (handle CartMenuItems
         (request_of POST (Some 4) [''menuitem'' \<mapsto> VInt 2, ''quantity'' \<mapsto> VInt 3]) lemon_db))
       = HTTP_500_INTERNAL_SERVER_ERROR
   \<and> Cart_objects (snd (handle CartMenuItems
         (request_of POST (Some 4) [''menuitem'' \<mapsto> VInt 2, ''quantity'' \<mapsto> VInt 3]) lemon_db))
       = [\<lparr>cart_user = 3, cart_menuitem = 1, cart_unit_price = 5 / 2, cart_quantity = 2, cart_price = 5\<rparr>]
   \<and> map mi_price (filter (\<lambda>i. mi_id i = 2) (MenuItem_objects lemon_db)) = [4]
   \<and> CartSerializer_is_valid (Some (request_of POST (Some 4) Map.empty)) lemon_db
        [''menuitem'' \<mapsto> VInt 2, ''unit_price'' \<mapsto> VDec 999, ''quantity'' \<mapsto> VInt 3]
       = Validated \<lparr>at_cart_user = Some 4, at_cart_menuitem = 2, at_cart_unit_price = 999,
                     at_cart_quantity = 3, at_cart_price = Some 2997\<rparr>"
proof -
  let ?post = "request_of POST (Some 4) [''menuitem'' \<mapsto> VInt 2, ''quantity'' \<mapsto> VInt 3]"
  have item: "get_by_pk mi_id (MenuItem_objects lemon_db) (VInt 2)
      = Inr \<lparr>mi_id = 2, mi_title = ''Soup'', mi_price = 4, mi_category = 1, mi_featured = True\<rparr>"
    by (simp add: get_by_pk_def pk_value_def lemon_db_def)
  have c: "cart_data ?post lemon_db
      = Inr [''menuitem_id'' \<mapsto> VInt 2, ''quantity'' \<mapsto> VInt 3, ''unit_price'' \<mapsto> VDec 4,
              ''price'' \<mapsto> VDec 12, ''user_id'' \<mapsto> VInt 4]"
    by (simp add: cart_data_def request_of_def item py_Decimal_def)
  have e: "filter (\<lambda>c. cart_user c = 4) (Cart_objects lemon_db) = []" by (simp add: lemon_db_def)
  have h: "handle CartMenuItems ?post lemon_db = (server_error (KeyError ''request''), lemon_db)"
    using e by (simp add: api_view_def cart_def c CartSerializer_is_valid_def user_field_def)
      (simp add: request_of_def)
  have v: "CartSerializer_is_valid (Some (request_of POST (Some 4) Map.empty)) lemon_db
        [''menuitem'' \<mapsto> VInt 2, ''unit_price'' \<mapsto> VDec 999, ''quantity'' \<mapsto> VInt 3]
       = Validated \<lparr>at_cart_user = Some 4, at_cart_menuitem = 2, at_cart_unit_price = 999,
                     at_cart_quantity = 3, at_cart_price = Some 2997\<rparr>"
    by (simp add: CartSerializer_is_valid_def user_field_def request_of_def run_field_def
        PrimaryKeyRelatedField_def item DecimalField_def column_IntegerField_def IntegerField_def
        column_min_def column_max_def CartSerializer_validate_def)
  show ?thesis unfolding h using e v by (simp add: server_error_def lemon_db_def)
qed

lemma rating_errors_status:
  assumes "RatingSerializer_is_valid (Some req) d (req_data req) = Errors errs"
    and "req_method req = POST" and "req_user req = Some u"
  shows "resp_status (fst (handle Ratings req d)) = HTTP_400_BAD_REQUEST \<and> snd (handle Ratings req d) = d"
  using assms by (simp add: RatingsView_def)

lemma rating_out_of_range:
  assumes "data ''rating'' = Some v" and "IntegerField v = Some r" and "r < 0 \<or> 5 < r"
  shows "\<exists>errs. RatingSerializer_is_valid (Some req) d data = Errors errs"
proof -
  have "v \<noteq> VNone" using assms(2) by (auto simp: IntegerField_def)
  then have "run_field False rating_field (data ''rating'') = Invalid"
    using assms by (cases v) (auto simp: run_field_def rating_field_def)
  then show ?thesis
    by (auto simp: RatingSerializer_is_valid_def user_field_def Let_def
        split: option.splits pyval.splits field_result.splits)
qed

lemma rating_fields_valid:
  assumes "user_field (Some req) d (data ''user'') = Inr (Valid (Some w))"
    and "data ''menuitem_id'' = Some mv" and "IntegerField mv = Some m"
    and "0 \<le> m" and "m \<le> 32767"
    and "data ''rating'' = Some v" and "IntegerField v = Some r" and "0 \<le> r" and "r \<le> 5"
  shows "RatingSerializer_is_valid (Some req) d data
       = (if filter (\<lambda>x. rt_user x = w \<and> rt_menuitem_id x = m) (Rating_objects d) = []
          then Validated \<lparr>at_rt_user = Some w, at_rt_menuitem_id = m, at_rt_rating = r\<rparr>
          else Errors [''non_field_errors''])"
proof -
  have "mv \<noteq> VNone" "v \<noteq> VNone" using assms(3,7) by (auto simp: IntegerField_def)
  moreover have "column_IntegerField mv = Some m"
    using assms(3,4,5) by (simp add: column_IntegerField_def column_min_def column_max_def)
  ultimately have 1: "run_field False column_IntegerField (data ''menuitem_id'') = Valid m"
    using assms(2) by (cases mv) (simp_all add: run_field_def)
  have 2: "run_field False rating_field (data ''rating'') = Valid r"
    using assms(6,7,8,9) \<open>v \<noteq> VNone\<close> by (cases v) (simp_all add: run_field_def rating_field_def)
  from 1 2 show ?thesis
    using assms(1) by (simp add: RatingSerializer_is_valid_def UniqueTogetherValidator_def)
qed

lemma rating_duplicate:
  assumes "user_field (Some req) d (data ''user'') = Inr (Valid (Some w))"
    and "data ''menuitem_id'' = Some mv" and "IntegerField mv = Some m"
    and "filter (\<lambda>x. rt_user x = w \<and> rt_menuitem_id x = m) (Rating_objects d) \<noteq> []"
  shows "\<exists>errs. RatingSerializer_is_valid (Some req) d data = Errors errs"
proof -
  have "mv \<noteq> VNone" using assms(3) by (auto simp: IntegerField_def)
  then have "run_field False column_IntegerField (data ''menuitem_id'') = Valid m
      \<or> run_field False column_IntegerField (data ''menuitem_id'') = Invalid"
    using assms(2,3) by (cases mv) (simp_all add: run_field_def column_IntegerField_def)
  then show ?thesis
  proof
    assume "run_field False column_IntegerField (data ''menuitem_id'') = Valid m"
    then show ?thesis
      using assms(1,4)
      by (auto simp: RatingSerializer_is_valid_def UniqueTogetherValidator_def Let_def
          split: field_result.splits)
  next
    assume "run_field False column_IntegerField (data ''menuitem_id'') = Invalid"
    then show ?thesis
      using assms(1) by (simp add: RatingSerializer_is_valid_def Let_def)
  qed
qed

text \<open>
  C9: a \<^verbatim>\<open>POST\<close> of a rating by an authenticated user is refused with status 400,
  and nothing is stored, whenever the rating that is submitted reads as a number
  below 0 or above 5, and whenever a rating of the same user for the same
  \<open>menuitem_id\<close> exists. Otherwise a well-formed rating is accepted: when the user
  of the rating is the requester (no key \<open>user\<close>) or an existing user, the
  \<open>menuitem_id\<close> and the rating read as numbers, the \<open>menuitem_id\<close> is from 0 to
  32767 and so in the range of its column, the rating is from 0 to 5 and no rating
  of that user for that \<open>menuitem_id\<close> exists, the answer is 201 and the rating is
  added to the table.
\<close>

theorem rating_post_validation:
  assumes "req_method req = POST" and "req_user req = Some u"
  shows "(req_data req ''rating'' = Some v \<and> IntegerField v = Some r \<and> (r < 0 \<or> 5 < r) \<longrightarrow>
            resp_status (fst (handle Ratings req d)) = HTTP_400_BAD_REQUEST \<and> snd (handle Ratings req d) = d)
       \<and> (user_field (Some req) d (req_data req ''user'') = Inr (Valid (Some w))
          \<and> req_data req ''menuitem_id'' = Some mv \<and> IntegerField mv = Some m
          \<and> filter (\<lambda>x. rt_user x = w \<and> rt_menuitem_id x = m) (Rating_objects d) \<noteq> [] \<longrightarrow>
            resp_status (fst (handle Ratings req d)) = HTTP_400_BAD_REQUEST \<and> snd (handle Ratings req d) = d)
       \<and> (user_field (Some req) d (req_data req ''user'') = Inr (Valid (Some w))
          \<and> req_data req ''menuitem_id'' = Some mv \<and> IntegerField mv = Some m
          \<and> 0 \<le> m \<and> m \<le> 32767
          \<and> req_data req ''rating'' = Some v \<and> IntegerField v = Some r \<and> 0 \<le> r \<and> r \<le> 5
          \<and> filter (\<lambda>x. rt_user x = w \<and> rt_menuitem_id x = m) (Rating_objects d) = [] \<longrightarrow>
            handle Ratings req d
              = (Response (PRating \<lparr>rt_user = w, rt_menuitem_id = m, rt_rating = r\<rparr>) (Some HTTP_201_CREATED),
                 d\<lparr>Rating_objects := Rating_objects d
                      @ [\<lparr>rt_user = w, rt_menuitem_id = m, rt_rating = r\<rparr>]\<rparr>))
       \<and> (req_data req ''user'' = None \<longrightarrow>
            user_field (Some req) d (req_data req ''user'') = Inr (Valid (Some u)))"
proof (intro conjI impI)
  assume "req_data req ''rating'' = Some v \<and> IntegerField v = Some r \<and> (r < 0 \<or> 5 < r)"
  then obtain errs where "RatingSerializer_is_valid (Some req) d (req_data req) = Errors errs"
    using rating_out_of_range [of "req_data req" v r req d] by blast
  then have e: "resp_status (fst (handle Ratings req d)) = HTTP_400_BAD_REQUEST \<and> snd (handle Ratings req d) = d"
    using assms by (rule rating_errors_status)
  show "resp_status (fst (handle Ratings req d)) = HTTP_400_BAD_REQUEST" using e by simp
  show "snd (handle Ratings req d) = d" using e by simp
next
  assume "user_field (Some req) d (req_data req ''user'') = Inr (Valid (Some w))
          \<and> req_data req ''menuitem_id'' = Some mv \<and> IntegerField mv = Some m
          \<and> filter (\<lambda>x. rt_user x = w \<and> rt_menuitem_id x = m) (Rating_objects d) \<noteq> []"
  then obtain errs where "RatingSerializer_is_valid (Some req) d (req_data req) = Errors errs"
    using rating_duplicate [of req d "req_data req" w mv m] by blast
  then have e: "resp_status (fst (handle Ratings req d)) = HTTP_400_BAD_REQUEST \<and> snd (handle Ratings req d) = d"
    using assms by (rule rating_errors_status)
  show "resp_status (fst (handle Ratings req d)) = HTTP_400_BAD_REQUEST" using e by simp
  show "snd (handle Ratings req d) = d" using e by simp
next
  assume a: "user_field (Some req) d (req_data req ''user'') = Inr (Valid (Some w))
          \<and> req_data req ''menuitem_id'' = Some mv \<and> IntegerField mv = Some m
          \<and> 0 \<le> m \<and> m \<le> 32767
          \<and> req_data req ''rating'' = Some v \<and> IntegerField v = Some r \<and> 0 \<le> r \<and> r \<le> 5
          \<and> filter (\<lambda>x. rt_user x = w \<and> rt_menuitem_id x = m) (Rating_objects d) = []"
  then have "RatingSerializer_is_valid (Some req) d (req_data req)
      = Validated \<lparr>at_rt_user = Some w, at_rt_menuitem_id = m, at_rt_rating = r\<rparr>"
    using rating_fields_valid [of req d "req_data req" w mv m v r] by simp
  then show "handle Ratings req d
              = (Response (PRating \<lparr>rt_user = w, rt_menuitem_id = m, rt_rating = r\<rparr>) (Some HTTP_201_CREATED),
                 d\<lparr>Rating_objects := Rating_objects d
                      @ [\<lparr>rt_user = w, rt_menuitem_id = m, rt_rating = r\<rparr>]\<rparr>)"
    using assms by (simp add: RatingsView_def RatingSerializer_save_def Let_def)
next
  assume "req_data req ''user'' = None"
  then show "user_field (Some req) d (req_data req ''user'') = Inr (Valid (Some u))"
    using assms by (simp add: user_field_def)
qed

theorem rating_post_validation_witness:
  "resp_status (fst (handle Ratings (request_of POST (Some 3) [''menuitem_id'' \<mapsto> VInt 2, ''rating'' \<mapsto> VInt 7]) lemon_db))
     = HTTP_400_BAD_REQUEST
   \<and> resp_status (fst (handle Ratings (request_of POST (Some 3) [''menuitem_id'' \<mapsto> VInt 1, ''rating'' \<mapsto> VInt 3]) lemon_db))
     = HTTP_400_BAD_REQUEST
   \<and> handle Ratings (request_of POST (Some 3) [''menuitem_id'' \<mapsto> VInt 2, ''rating'' \<mapsto> VInt 5]) lemon_db
     = (Response (PRating \<lparr>rt_user = 3, rt_menuitem_id = 2, rt_rating = 5\<rparr>) (Some HTTP_201_CREATED),
        lemon_db\<lparr>Rating_objects := Rating_objects lemon_db
          @ [\<lparr>rt_user = 3, rt_menuitem_id = 2, rt_rating = 5\<rparr>]\<rparr>)"
proof -
  have r: "Rating_objects lemon_db = [\<lparr>rt_user = 3, rt_menuitem_id = 1, rt_rating = 4\<rparr>]"
    by (simp add: lemon_db_def)
  have u: "\<And>data. data ''user'' = None \<Longrightarrow>
      user_field (Some (request_of POST (Some 3) data)) lemon_db (data ''user'') = Inr (Valid (Some 3))"
    by (simp add: user_field_def request_of_def)
  have a: "resp_status (fst (handle Ratings (request_of POST (Some 3) [''menuitem_id'' \<mapsto> VInt 2, ''rating'' \<mapsto> VInt 7]) lemon_db))
     = HTTP_400_BAD_REQUEST"
    using rating_post_validation [of "request_of POST (Some 3) [''menuitem_id'' \<mapsto> VInt 2, ''rating'' \<mapsto> VInt 7]"
        3 "VInt 7" 7 lemon_db 3 "VInt 2" 2]
    by (simp add: request_of_def IntegerField_def)
  have b: "resp_status (fst (handle Ratings (request_of POST (Some 3) [''menuitem_id'' \<mapsto> VInt 1, ''rating'' \<mapsto> VInt 3]) lemon_db))
     = HTTP_400_BAD_REQUEST"
    using rating_post_validation [of "request_of POST (Some 3) [''menuitem_id'' \<mapsto> VInt 1, ''rating'' \<mapsto> VInt 3]"
        3 "VInt 3" 3 lemon_db 3 "VInt 1" 1]
      u [of "[''menuitem_id'' \<mapsto> VInt 1, ''rating'' \<mapsto> VInt 3]"]
    by (simp add: request_of_def IntegerField_def r)
  have c: "handle Ratings (request_of POST (Some 3) [''menuitem_id'' \<mapsto> VInt 2, ''rating'' \<mapsto> VInt 5]) lemon_db
     = (Response (PRating \<lparr>rt_user = 3, rt_menuitem_id = 2, rt_rating = 5\<rparr>) (Some HTTP_201_CREATED),
        lemon_db\<lparr>Rating_objects := Rating_objects lemon_db
          @ [\<lparr>rt_user = 3, rt_menuitem_id = 2, rt_rating = 5\<rparr>]\<rparr>)"
    using rating_post_validation [of "request_of POST (Some 3) [''menuitem_id'' \<mapsto> VInt 2, ''rating'' \<mapsto> VInt 5]"
        3 "VInt 5" 5 lemon_db 3 "VInt 2" 2]
      u [of "[''menuitem_id'' \<mapsto> VInt 2, ''rating'' \<mapsto> VInt 5]"]
    by (simp add: request_of_def IntegerField_def r)
  show ?thesis using a b c by simp
qed

end
